theory Spec2Isabelle
  imports Main
begin

section \<open>Python values, dictionaries and exceptions\<close>

text \<open>
  The agent of \<^verbatim>\<open>src/ai-agent/agent.py\<close> works on Python strings, on dictionaries
  from strings to values (\<^verbatim>\<open>Dict[str, Any]\<close>) and on two external services: the task
  backend, reached over HTTP, and the chat-completion endpoint of the language model.

  A string is a list of characters. The type \<open>char\<close> has 256 values, read here as the
  code points below 256 (ASCII and Latin-1); on them \<^verbatim>\<open>str.lower\<close>, \<^verbatim>\<open>str.isspace\<close> and the
  pattern \<^verbatim>\<open>\d\<close> are modelled as Python defines them. Code points from 256 on (where
  \<^verbatim>\<open>str.lower\<close> may change the length of a string) are outside the model.
  The values stored in a parameter dictionary are \<^verbatim>\<open>None\<close>, booleans, integers and
  strings. A dictionary is an association list in insertion order with distinct keys.
\<close>

datatype pyval = PyNone | PyBool bool | PyInt int | PyStr string

type_synonym pydict = "(string \<times> pyval) list"

text \<open>Instances of \<^verbatim>\<open>Exception\<close>; \<open>exn_str\<close> is \<^verbatim>\<open>str(e)\<close>.\<close>

datatype exn =
    IndexError string
  | ValueError string
  | KeyError string
  | JSONDecodeError string
  | TransportError string
  | APIError string

fun exn_str :: "exn \<Rightarrow> string" where
  "exn_str (IndexError m) = m"
| "exn_str (ValueError m) = m"
| "exn_str (KeyError k) = [CHR 0x27] @ k @ [CHR 0x27]"
| "exn_str (JSONDecodeError m) = m"
| "exn_str (TransportError m) = m"
| "exn_str (APIError m) = m"

text \<open>Truthiness, as \<^verbatim>\<open>if v:\<close> tests it.\<close>

fun truthy :: "pyval \<Rightarrow> bool" where
  "truthy PyNone = False"
| "truthy (PyBool b) = b"
| "truthy (PyInt i) = (i \<noteq> 0)"
| "truthy (PyStr s) = (s \<noteq> [])"

text \<open>\<^verbatim>\<open>d.get(k, default)\<close>, \<^verbatim>\<open>d[k]\<close> (which raises \<^verbatim>\<open>KeyError\<close>) and \<^verbatim>\<open>d[k] = v\<close>;
  \<^verbatim>\<open>k in d\<close> is \<open>map_of d k \<noteq> None\<close>.\<close>

definition dict_get :: "pydict \<Rightarrow> string \<Rightarrow> pyval \<Rightarrow> pyval" where
  "dict_get d k dflt = (case map_of d k of None \<Rightarrow> dflt | Some v \<Rightarrow> v)"

definition dict_item :: "pydict \<Rightarrow> string \<Rightarrow> exn + pyval" where
  "dict_item d k = (case map_of d k of None \<Rightarrow> Inl (KeyError k) | Some v \<Rightarrow> Inr v)"

fun dict_set :: "pydict \<Rightarrow> string \<Rightarrow> pyval \<Rightarrow> pydict" where
  "dict_set [] k v = [(k, v)]"
| "dict_set ((k', v') # d) k v = (if k' = k then (k, v) # d else (k', v') # dict_set d k v)"

section \<open>String operations\<close>

definition is_upper :: "char \<Rightarrow> bool" where
  "is_upper c = (let n = (of_char c :: nat) in
     (65 \<le> n \<and> n \<le> 90) \<or> (192 \<le> n \<and> n \<le> 222 \<and> n \<noteq> 215))"

definition char_lower :: "char \<Rightarrow> char" where
  "char_lower c = (if is_upper c then char_of ((of_char c :: nat) + 32) else c)"

text \<open>\<^verbatim>\<open>s.lower()\<close>\<close>

definition lower :: "string \<Rightarrow> string" where
  "lower s = map char_lower s"

text \<open>\<^verbatim>\<open>c.isspace()\<close>: tab to carriage return, the separators 0x1C to 0x1F, space, NEL, NBSP.\<close>

definition is_space :: "char \<Rightarrow> bool" where
  "is_space c = (let n = (of_char c :: nat) in
     (9 \<le> n \<and> n \<le> 13) \<or> (28 \<le> n \<and> n \<le> 32) \<or> n = 133 \<or> n = 160)"

text \<open>The characters \<^verbatim>\<open>\d\<close> matches.\<close>

definition is_digit :: "char \<Rightarrow> bool" where
  "is_digit c = (let n = (of_char c :: nat) in 48 \<le> n \<and> n \<le> 57)"

text \<open>\<^verbatim>\<open>s.strip()\<close>\<close>

definition strip :: "string \<Rightarrow> string" where
  "strip s = rev (dropWhile is_space (rev (dropWhile is_space s)))"

text \<open>\<^verbatim>\<open>s.startswith(w)\<close>\<close>

fun startswith :: "string \<Rightarrow> string \<Rightarrow> bool" where
  "startswith s [] = True"
| "startswith [] (c # w) = False"
| "startswith (x # s) (c # w) = (x = c \<and> startswith s w)"

text \<open>\<^verbatim>\<open>s.removeprefix(p)\<close>\<close>

definition removeprefix :: "string \<Rightarrow> string \<Rightarrow> string" where
  "removeprefix p s = (if startswith s p then drop (length p) s else s)"

text \<open>\<^verbatim>\<open>w in s\<close>: \<open>w\<close> occurs in \<open>s\<close> as a contiguous substring.\<close>

fun str_in :: "string \<Rightarrow> string \<Rightarrow> bool" where
  "str_in w [] = (w = [])"
| "str_in w (c # s) = (startswith (c # s) w \<or> str_in w s)"

text \<open>\<^verbatim>\<open>any(w in text for w in ws)\<close>\<close>

definition any_in :: "string list \<Rightarrow> string \<Rightarrow> bool" where
  "any_in ws text = list_ex (\<lambda>w. str_in w text) ws"

text \<open>
  \<^verbatim>\<open>s.split(w, 1)\<close>: the text before the first occurrence of \<open>w\<close> and the text after it,
  or \<open>s\<close> alone when \<open>w\<close> does not occur; an empty separator raises \<^verbatim>\<open>ValueError\<close>.
\<close>

fun split_first :: "string \<Rightarrow> string \<Rightarrow> string list" where
  "split_first [] w = [[]]"
| "split_first (c # s) w =
     (if startswith (c # s) w then [[], drop (length w) (c # s)]
      else (case split_first s w of
              [] \<Rightarrow> []
            | a # rest \<Rightarrow> (c # a) # rest))"

definition str_split1 :: "string \<Rightarrow> string \<Rightarrow> exn + string list" where
  "str_split1 s w = (if w = [] then Inl (ValueError ''empty separator'') else Inr (split_first s w))"

text \<open>\<^verbatim>\<open>xs[i]\<close> for \<open>i \<ge> 0\<close>\<close>

definition list_item :: "'a list \<Rightarrow> nat \<Rightarrow> exn + 'a" where
  "list_item xs i = (if i < length xs then Inr (xs ! i) else Inl (IndexError ''list index out of range''))"

text \<open>
  \<^verbatim>\<open>re.findall(r"\d+", s)\<close>: the maximal runs of digits of \<open>s\<close>, from left to right.
  The first argument is the run being read.
\<close>

fun digit_runs :: "string \<Rightarrow> string \<Rightarrow> string list" where
  "digit_runs cur [] = (if cur = [] then [] else [cur])"
| "digit_runs cur (c # s) =
     (if is_digit c then digit_runs (cur @ [c]) s
      else if cur = [] then digit_runs [] s
      else cur # digit_runs [] s)"

definition findall_digits :: "string \<Rightarrow> string list" where
  "findall_digits s = digit_runs [] s"

text \<open>\<^verbatim>\<open>str(v)\<close>, as an f-string formats a value.\<close>

fun digits_of_nat :: "nat \<Rightarrow> string" where
  "digits_of_nat n =
     (if n < 10 then [char_of (48 + n)]
      else digits_of_nat (n div 10) @ [char_of (48 + n mod 10)])"

declare digits_of_nat.simps [simp del]

definition str_of_int :: "int \<Rightarrow> string" where
  "str_of_int i = (if i < 0 then CHR ''-'' # digits_of_nat (nat (- i)) else digits_of_nat (nat i))"

fun py_str :: "pyval \<Rightarrow> string" where
  "py_str PyNone = ''None''"
| "py_str (PyBool b) = (if b then ''True'' else ''False'')"
| "py_str (PyInt i) = str_of_int i"
| "py_str (PyStr s) = s"

text \<open>
  \<^verbatim>\<open>int(ds)\<close> on a non-empty string of decimal digits, which is what a match of \<^verbatim>\<open>\d+\<close> is.
  The number denoted is \<open>decimal_value ds\<close>. The interpreter refuses to convert a string
  of more than \<^verbatim>\<open>sys.int_info.default_max_str_digits\<close> = 4300 digits (leading zeros
  count) and raises \<^verbatim>\<open>ValueError\<close>; the program does not change that limit.
\<close>

definition digit_val :: "char \<Rightarrow> int" where
  "digit_val c = int (of_char c) - 48"

definition decimal_value :: "string \<Rightarrow> int" where
  "decimal_value ds = foldl (\<lambda>a c. 10 * a + digit_val c) 0 ds"

definition max_str_digits :: nat where
  "max_str_digits = 4300"

definition py_int :: "string \<Rightarrow> exn + int" where
  "py_int ds =
     (if length ds > max_str_digits
      then Inl (ValueError (''Exceeds the limit ('' @ digits_of_nat max_str_digits
             @ '' digits) for integer string conversion: value has ''
             @ digits_of_nat (length ds)
             @ '' digits; use sys.set_int_max_str_digits() to increase the limit''))
      else Inr (decimal_value ds))"

section \<open>The intent classifier\<close>

definition create_words :: "string list" where
  "create_words = [''add'', ''create'', ''make'', ''new'']"

definition list_words :: "string list" where
  "list_words = [''list'', ''show'', ''view'', ''display'', ''see'', ''check'']"

definition delete_words :: "string list" where
  "delete_words = [''delete'', ''remove'']"

definition update_words :: "string list" where
  "update_words = [''update'', ''complete'', ''done'']"

type_synonym classification = "string option \<times> pydict option"

text \<open>
  The title of lines 106 and 107, from the text after the keyword:
  \<^verbatim>\<open>title = rest.strip(); title = title.removeprefix("task").removeprefix("to").strip()\<close>
\<close>

definition clean_title :: "string \<Rightarrow> string" where
  "clean_title rest = strip (removeprefix ''to'' (removeprefix ''task'' (strip rest)))"

text \<open>
  The loop of lines 104 to 108 over the remaining keywords: it returns at the first
  keyword found in \<open>text\<close>; \<open>Inr None\<close> is the loop ending without a return.
\<close>

fun create_loop :: "string \<Rightarrow> string \<Rightarrow> string list \<Rightarrow> exn + classification option" where
  "create_loop user_input text [] = Inr None"
| "create_loop user_input text (w # ws) =
     (if str_in w text then
        (case str_split1 text w of
           Inl e \<Rightarrow> Inl e
         | Inr parts \<Rightarrow>
             (case list_item parts 1 of
                Inl e \<Rightarrow> Inl e
              | Inr rest \<Rightarrow>
                  (let title = clean_title rest
                   in Inr (Some (Some ''create_task'',
                        Some [(''title'', PyStr (if title \<noteq> [] then title else user_input))])))))
      else create_loop user_input text ws)"

text \<open>\<^verbatim>\<open>int(nums[0]) if nums else 1\<close>, which raises when \<^verbatim>\<open>int\<close> does.\<close>

definition first_number :: "string list \<Rightarrow> exn + int" where
  "first_number nums = (case nums of [] \<Rightarrow> Inr 1 | n # _ \<Rightarrow> py_int n)"

definition identify_mcp_tool_and_params :: "string \<Rightarrow> string \<Rightarrow> exn + classification" where
  "identify_mcp_tool_and_params user_input user_id =
     (let text = lower user_input in
      case (if any_in create_words text then create_loop user_input text create_words
            else Inr None) of
        Inl e \<Rightarrow> Inl e
      | Inr (Some r) \<Rightarrow> Inr r
      | Inr None \<Rightarrow>
          if any_in list_words text \<or> str_in ''my tasks'' text then
            Inr (Some ''get_tasks'', Some [(''user_id'', PyStr user_id)])
          else if any_in delete_words text then
            (let nums = findall_digits user_input
             in case first_number nums of
                  Inl e \<Rightarrow> Inl e
                | Inr n \<Rightarrow> Inr (Some ''delete_task'', Some [(''task_id'', PyInt n)]))
          else if any_in update_words text then
            (let nums = findall_digits user_input
             in case first_number nums of
                  Inl e \<Rightarrow> Inl e
                | Inr n \<Rightarrow>
                    Inr (Some ''update_task'',
                      Some [(''task_id'', PyInt n), (''status'', PyStr ''completed'')]))
          else Inr (None, None))"

section \<open>The outside world: the backend and the language model\<close>

text \<open>
  An HTTP request as the agent builds it, and the part of an \<^verbatim>\<open>httpx\<close> response the agent
  reads: \<^verbatim>\<open>r.status_code\<close>, \<^verbatim>\<open>r.text\<close> and \<^verbatim>\<open>r.json()\<close>, which raises when the body is
  not JSON.
\<close>

datatype json =
    JNull
  | JBool bool
  | JNum int
  | JStr string
  | JArr "json list"
  | JObj "(string \<times> json) list"

fun json_truthy :: "json \<Rightarrow> bool" where
  "json_truthy JNull = False"
| "json_truthy (JBool b) = b"
| "json_truthy (JNum i) = (i \<noteq> 0)"
| "json_truthy (JStr s) = (s \<noteq> [])"
| "json_truthy (JArr xs) = (xs \<noteq> [])"
| "json_truthy (JObj kvs) = (kvs \<noteq> [])"

record http_request =
  http_method :: string
  url :: string
  json_body :: "pydict option"
  headers :: "(string \<times> string) list"

record http_response =
  status_code :: int
  resp_text :: string
  resp_json :: "exn + json"

text \<open>
  The environment of one invocation: the configured base URL, the backend as a function
  from a request to a response or to the exception the transport raises, and the
  chat-completion call as a function from the prompt to the content of the first choice
  or to the exception the client raises.
\<close>

record world =
  BACKEND_BASE_URL :: string
  http_send :: "http_request \<Rightarrow> exn + http_response"
  chat_completion :: "string \<Rightarrow> exn + string"

text \<open>What an invocation does to the outside world, in order.\<close>

datatype event =
    ToolExec string pydict
  | Http http_request
  | Chat string

section \<open>The tool dispatcher\<close>

text \<open>Lines 129 to 132.\<close>

definition request_headers :: "pydict \<Rightarrow> (string \<times> string) list" where
  "request_headers params =
     (let session_token = dict_get params ''session_token'' (PyStr []);
          hs = [(''Content-Type'', ''application/json'')]
      in if truthy session_token
         then hs @ [(''Authorization'', ''Bearer '' @ py_str session_token)]
         else hs)"

text \<open>One awaited call of the HTTP client, and what the branch makes of the response.\<close>

definition send :: "world \<Rightarrow> http_request \<Rightarrow> (http_response \<Rightarrow> exn + string)
    \<Rightarrow> event list \<times> (exn + string)" where
  "send wd req k = ([Http req], (case http_send wd req of Inl e \<Rightarrow> Inl e | Inr r \<Rightarrow> k r))"

definition execute_mcp_tool :: "world \<Rightarrow> string \<Rightarrow> pydict \<Rightarrow> event list \<times> (exn + string)" where
  "execute_mcp_tool wd tool_name params =
     (let hs = request_headers params in
      if tool_name = ''create_task'' then
        (let task_data = [(''title'', dict_get params ''title'' (PyStr [])),
                          (''description'', dict_get params ''description'' (PyStr []))]
         in send wd \<lparr>http_method = ''POST'', url = BACKEND_BASE_URL wd @ ''/api/tasks/'',
                      json_body = Some task_data, headers = hs\<rparr>
              (\<lambda>r. Inr (if status_code r = 200 \<or> status_code r = 201
                         then ''Task added successfully.'' else resp_text r)))
      else if tool_name = ''get_tasks'' then
        send wd \<lparr>http_method = ''GET'', url = BACKEND_BASE_URL wd @ ''/api/tasks/'',
                   json_body = None, headers = hs\<rparr>
          (\<lambda>r. if status_code r = 200 then
                  (case resp_json r of
                     Inl e \<Rightarrow> Inl e
                   | Inr tasks \<Rightarrow>
                       if \<not> json_truthy tasks
                       then Inr ''No tasks found for you. Feel free to add one!''
                       else Inr (resp_text r))
                else Inr (resp_text r))
      else if tool_name = ''update_task'' then
        (let task_data = [(''completed'', PyBool True)];
             task_data = (case map_of params ''title'' of
                            None \<Rightarrow> task_data | Some v \<Rightarrow> dict_set task_data ''title'' v);
             task_data = (case map_of params ''description'' of
                            None \<Rightarrow> task_data | Some v \<Rightarrow> dict_set task_data ''description'' v)
         in case dict_item params ''task_id'' of
              Inl e \<Rightarrow> ([], Inl e)
            | Inr task_id \<Rightarrow>
                send wd \<lparr>http_method = ''PUT'',
                           url = BACKEND_BASE_URL wd @ ''/api/tasks/'' @ py_str task_id,
                           json_body = Some task_data, headers = hs\<rparr>
                  (\<lambda>r. Inr (if status_code r = 200
                             then ''Task updated successfully.'' else resp_text r)))
      else if tool_name = ''delete_task'' then
        (case dict_item params ''task_id'' of
           Inl e \<Rightarrow> ([], Inl e)
         | Inr task_id \<Rightarrow>
             send wd \<lparr>http_method = ''DELETE'',
                        url = BACKEND_BASE_URL wd @ ''/api/tasks/'' @ py_str task_id,
                        json_body = None, headers = hs\<rparr>
               (\<lambda>r. Inr (if status_code r = 200
                          then ''Task deleted successfully.'' else resp_text r)))
      else ([], Inr ''Unknown action''))"

section \<open>The orchestrator\<close>

record tool_call =
  tc_name :: string
  tc_arguments :: pydict

definition system_prompt :: string where
  "system_prompt =
     ''You are a helpful productivity assistant that helps users manage their tasks through natural language.''
     @ [CHR 0x0A, CHR 0x0A] @ ''Your capabilities include:''
     @ [CHR 0x0A] @ ''1. Adding new tasks''
     @ [CHR 0x0A] @ ''2. Listing existing tasks''
     @ [CHR 0x0A] @ ''3. Updating tasks''
     @ [CHR 0x0A] @ ''4. Deleting tasks''
     @ [CHR 0x0A, CHR 0x0A] @ ''Always respond in a helpful and friendly manner.''
     @ [CHR 0x0A]"

definition tool_prompt :: "string \<Rightarrow> string \<Rightarrow> string" where
  "tool_prompt user_input tool_result =
     [CHR 0x0A] @ ''User request: '' @ [CHR 0x22] @ user_input @ [CHR 0x22]
     @ [CHR 0x0A, CHR 0x0A] @ ''Tool result:''
     @ [CHR 0x0A] @ tool_result
     @ [CHR 0x0A, CHR 0x0A] @ ''Reply politely and clearly to the user.''
     @ [CHR 0x0A]"

definition chat_prompt :: "string \<Rightarrow> string" where
  "chat_prompt user_input =
     [CHR 0x0A] @ system_prompt
     @ [CHR 0x0A, CHR 0x0A] @ ''User said: '' @ [CHR 0x22] @ user_input @ [CHR 0x22]
     @ [CHR 0x0A]"

definition apology :: string where
  "apology = ''I'm sorry, I encountered an error: ''"

text \<open>\<^verbatim>\<open>auth_token or ""\<close>\<close>

definition token_or_empty :: "string option \<Rightarrow> string" where
  "token_or_empty auth_token = (case auth_token of None \<Rightarrow> [] | Some t \<Rightarrow> t)"

text \<open>Lines 81 to 92: the chat path.\<close>

definition chat_path :: "world \<Rightarrow> string \<Rightarrow> event list \<times> (exn + string \<times> tool_call list)" where
  "chat_path wd user_input =
     (let response_prompt = chat_prompt user_input
      in ([Chat response_prompt],
          (case chat_completion wd response_prompt of
             Inl e \<Rightarrow> Inl e
           | Inr content \<Rightarrow> Inr (content, []))))"

text \<open>Lines 60 to 79: the tool path.\<close>

definition tool_path :: "world \<Rightarrow> string \<Rightarrow> string \<Rightarrow> pydict \<Rightarrow> string option
    \<Rightarrow> event list \<times> (exn + string \<times> tool_call list)" where
  "tool_path wd user_input tool_name params0 auth_token =
     (let params = dict_set params0 ''session_token'' (PyStr (token_or_empty auth_token));
          call = \<lparr>tc_name = tool_name, tc_arguments = params\<rparr>
      in case execute_mcp_tool wd tool_name params of
           (evs, Inl e) \<Rightarrow> (ToolExec tool_name params # evs, Inl e)
         | (evs, Inr tool_result) \<Rightarrow>
             (let response_prompt = tool_prompt user_input tool_result
              in (ToolExec tool_name params # evs @ [Chat response_prompt],
                  (case chat_completion wd response_prompt of
                     Inl e \<Rightarrow> Inl e
                   | Inr content \<Rightarrow> Inr (content, [call])))))"

text \<open>The body of the \<^verbatim>\<open>try\<close> block; \<open>Inl e\<close> is the exception \<open>e\<close> leaving it.\<close>

definition process_try :: "world \<Rightarrow> string \<Rightarrow> (string \<times> string) list list \<Rightarrow> string
    \<Rightarrow> string option \<Rightarrow> string option \<Rightarrow> event list \<times> (exn + string \<times> tool_call list)" where
  "process_try wd user_input conversation_history user_id conversation_id auth_token =
     (case identify_mcp_tool_and_params user_input user_id of
        Inl e \<Rightarrow> ([], Inl e)
      | Inr (Some tool_name, Some params) \<Rightarrow>
          if tool_name \<noteq> [] \<and> params \<noteq> []
          then tool_path wd user_input tool_name params auth_token
          else chat_path wd user_input
      | Inr _ \<Rightarrow> chat_path wd user_input)"

text \<open>\<^verbatim>\<open>Agent.process\<close>: the events of the invocation, the reply and the tool calls.\<close>

definition process :: "world \<Rightarrow> string \<Rightarrow> (string \<times> string) list list \<Rightarrow> string
    \<Rightarrow> string option \<Rightarrow> string option \<Rightarrow> event list \<times> string \<times> tool_call list" where
  "process wd user_input conversation_history user_id conversation_id auth_token =
     (case process_try wd user_input conversation_history user_id conversation_id auth_token of
        (evs, Inl e) \<Rightarrow> (evs, apology @ exn_str e, [])
      | (evs, Inr r) \<Rightarrow> (evs, r))"

text \<open>The module's entry point calls \<^verbatim>\<open>process\<close> of the one agent instance.\<close>

definition process_user_input :: "world \<Rightarrow> string \<Rightarrow> (string \<times> string) list list \<Rightarrow> string
    \<Rightarrow> string option \<Rightarrow> string option \<Rightarrow> event list \<times> string \<times> tool_call list" where
  "process_user_input wd user_input conversation_history user_id conversation_id auth_token =
     process wd user_input conversation_history user_id conversation_id auth_token"

section \<open>Stand-ins for the two services\<close>

text \<open>
  A backend that answers every request with the same response, a model that replies with
  the same content, and a service whose call raises.
\<close>

definition answering :: "http_response \<Rightarrow> http_request \<Rightarrow> exn + http_response" where
  "answering r req = Inr r"

definition replying :: "string \<Rightarrow> string \<Rightarrow> exn + string" where
  "replying content prompt = Inr content"

definition raising :: "exn \<Rightarrow> 'a \<Rightarrow> exn + 'b" where
  "raising e x = Inl e"

section \<open>The create title as the specification words it\<close>

text \<open>
  The specification takes the title from \<^emph>\<open>the input\<close>: the text of the input after the
  first occurrence of the keyword that matched, with ``a leading \<^verbatim>\<open>task\<close> or \<^verbatim>\<open>to\<close> token and
  surrounding whitespace stripped''. A token is a maximal run of characters that are not
  whitespace: \<open>spec_clean_title\<close> strips the whitespace, takes the first token off when it
  is \<^verbatim>\<open>task\<close> or \<^verbatim>\<open>to\<close>, and strips the whitespace again. \<open>str_find\<close> is the position
  of the first occurrence (\<^verbatim>\<open>s.find(w)\<close>); the keyword is searched in the lowercased text,
  which has the length of the input, and the title is cut from the input itself.
\<close>

definition leading_token :: "string \<Rightarrow> string" where
  "leading_token s = takeWhile (\<lambda>c. \<not> is_space c) s"

definition spec_clean_title :: "string \<Rightarrow> string" where
  "spec_clean_title rest =
     (let t = strip rest
      in if leading_token t = ''task'' \<or> leading_token t = ''to''
         then strip (drop (length (leading_token t)) t)
         else t)"

fun str_find :: "string \<Rightarrow> string \<Rightarrow> nat option" where
  "str_find [] w = (if w = [] then Some 0 else None)"
| "str_find (c # s) w =
     (if startswith (c # s) w then Some 0 else map_option Suc (str_find s w))"

definition spec_create_title :: "string \<Rightarrow> string option" where
  "spec_create_title user_input =
     (case find (\<lambda>w. str_in w (lower user_input)) create_words of
        None \<Rightarrow> None
      | Some w \<Rightarrow>
          (case str_find (lower user_input) w of
             None \<Rightarrow> None
           | Some i \<Rightarrow>
               (let title = spec_clean_title (drop (i + length w) user_input)
                in Some (if title \<noteq> [] then title else user_input))))"

section \<open>Substrings and splitting\<close>

lemma startswith_iff: "startswith s w \<longleftrightarrow> (\<exists>post. s = w @ post)"
  by (induction s w rule: startswith.induct) auto

lemma str_in_iff: "str_in w s \<longleftrightarrow> (\<exists>pre post. s = pre @ w @ post)"
proof (induction s)
  case Nil
  then show ?case by simp
next
  case (Cons c s)
  show ?case
  proof
    assume "str_in w (c # s)"
    then consider "startswith (c # s) w" | "str_in w s" by auto
    then show "\<exists>pre post. c # s = pre @ w @ post"
    proof cases
      case 1
      then obtain post where "c # s = w @ post" by (auto simp: startswith_iff)
      then have "c # s = [] @ w @ post" by simp
      then show ?thesis by blast
    next
      case 2
      then obtain pre post where "s = pre @ w @ post" using Cons.IH by blast
      then have "c # s = (c # pre) @ w @ post" by simp
      then show ?thesis by blast
    qed
  next
    assume "\<exists>pre post. c # s = pre @ w @ post"
    then obtain pre post where eq: "c # s = pre @ w @ post" by blast
    show "str_in w (c # s)"
    proof (cases pre)
      case Nil
      with eq have "startswith (c # s) w" by (auto simp: startswith_iff)
      then show ?thesis by simp
    next
      case (Cons a pre')
      with eq have "s = pre' @ w @ post" by simp
      then have "str_in w s" using Cons.IH by blast
      then show ?thesis by simp
    qed
  qed
qed

lemma split_first_found:
  "str_in w s \<Longrightarrow> w \<noteq> [] \<Longrightarrow>
   \<exists>pre post. split_first s w = [pre, post] \<and> s = pre @ w @ post
     \<and> (\<forall>i<length pre. \<not> startswith (drop i s) w)"
proof (induction s)
  case Nil
  then show ?case by simp
next
  case (Cons c s)
  show ?case
  proof (cases "startswith (c # s) w")
    case True
    then obtain post where p: "c # s = w @ post" by (auto simp: startswith_iff)
    then have d: "drop (length w) (c # s) = post" by (metis append_eq_conv_conj)
    have "split_first (c # s) w = [[], post]" using True d by simp
    moreover have "c # s = [] @ w @ post" using p by simp
    ultimately show ?thesis by fastforce
  next
    case False
    with Cons.prems have "str_in w s" by simp
    from Cons.IH[OF this Cons.prems(2)] obtain pre post where
      sp: "split_first s w = [pre, post]" and eq: "s = pre @ w @ post"
      and fst: "\<forall>i<length pre. \<not> startswith (drop i s) w" by blast
    have "split_first (c # s) w = [c # pre, post]" using False sp by simp
    moreover have "c # s = (c # pre) @ w @ post" using eq by simp
    moreover have "\<forall>i<length (c # pre). \<not> startswith (drop i (c # s)) w"
    proof (intro allI impI)
      fix i assume "i < length (c # pre)"
      then show "\<not> startswith (drop i (c # s)) w"
        using False fst by (cases i) auto
    qed
    ultimately show ?thesis by blast
  qed
qed

lemma any_in_find: "any_in ws text \<longleftrightarrow> find (\<lambda>w. str_in w text) ws \<noteq> None"
  by (induction ws) (auto simp: any_in_def)

lemma create_loop_found:
  "\<forall>w\<in>set ws. w \<noteq> [] \<Longrightarrow> find (\<lambda>w. str_in w text) ws = Some w \<Longrightarrow>
   \<exists>pre post. text = pre @ w @ post \<and> (\<forall>i<length pre. \<not> startswith (drop i text) w)
     \<and> create_loop user_input text ws =
         Inr (Some (Some ''create_task'',
           Some [(''title'', PyStr (if clean_title post \<noteq> [] then clean_title post else user_input))]))"
proof (induction ws)
  case Nil
  then show ?case by simp
next
  case (Cons a ws)
  show ?case
  proof (cases "str_in a text")
    case True
    with Cons.prems have aw: "a = w" and ne: "w \<noteq> []" by auto
    from split_first_found[OF True[unfolded aw] ne] obtain pre post where
      sp: "split_first text w = [pre, post]" and eq: "text = pre @ w @ post"
      and fst: "\<forall>i<length pre. \<not> startswith (drop i text) w" by blast
    have "create_loop user_input text (a # ws) =
         Inr (Some (Some ''create_task'',
           Some [(''title'', PyStr (if clean_title post \<noteq> [] then clean_title post else user_input))]))"
      using True aw ne sp by (simp add: str_split1_def list_item_def Let_def)
    with eq fst show ?thesis by blast
  next
    case False
    with Cons show ?thesis by auto
  qed
qed

section \<open>The branches of the classifier\<close>

lemma create_words_nonempty: "\<forall>w\<in>set create_words. w \<noteq> []"
  by (simp add: create_words_def)

lemma identify_create:
  assumes "any_in create_words (lower user_input)"
  shows "\<exists>w pre post. find (\<lambda>w. str_in w (lower user_input)) create_words = Some w
     \<and> lower user_input = pre @ w @ post
     \<and> (\<forall>i<length pre. \<not> startswith (drop i (lower user_input)) w)
     \<and> identify_mcp_tool_and_params user_input user_id =
         Inr (Some ''create_task'',
           Some [(''title'', PyStr (if clean_title post \<noteq> [] then clean_title post else user_input))])"
proof -
  from assms obtain w where f: "find (\<lambda>w. str_in w (lower user_input)) create_words = Some w"
    by (auto simp: any_in_find)
  from create_loop_found[OF create_words_nonempty f, of user_input] obtain pre post where
    eq: "lower user_input = pre @ w @ post"
    and fo: "\<forall>i<length pre. \<not> startswith (drop i (lower user_input)) w"
    and cl: "create_loop user_input (lower user_input) create_words =
         Inr (Some (Some ''create_task'',
           Some [(''title'', PyStr (if clean_title post \<noteq> [] then clean_title post else user_input))]))"
    by blast
  have "identify_mcp_tool_and_params user_input user_id =
         Inr (Some ''create_task'',
           Some [(''title'', PyStr (if clean_title post \<noteq> [] then clean_title post else user_input))])"
    using assms cl by (simp add: identify_mcp_tool_and_params_def Let_def)
  with f eq fo show ?thesis by blast
qed

lemma identify_create_name:
  "any_in create_words (lower user_input) \<Longrightarrow>
   \<exists>title. identify_mcp_tool_and_params user_input user_id =
     Inr (Some ''create_task'', Some [(''title'', PyStr title)])"
  using identify_create[of user_input user_id] by blast

lemma identify_not_create:
  assumes "\<not> any_in create_words (lower user_input)"
  shows "identify_mcp_tool_and_params user_input user_id =
     (if any_in list_words (lower user_input) \<or> str_in ''my tasks'' (lower user_input) then
        Inr (Some ''get_tasks'', Some [(''user_id'', PyStr user_id)])
      else if any_in delete_words (lower user_input) then
        (case first_number (findall_digits user_input) of
           Inl e \<Rightarrow> Inl e
         | Inr n \<Rightarrow> Inr (Some ''delete_task'', Some [(''task_id'', PyInt n)]))
      else if any_in update_words (lower user_input) then
        (case first_number (findall_digits user_input) of
           Inl e \<Rightarrow> Inl e
         | Inr n \<Rightarrow>
             Inr (Some ''update_task'',
               Some [(''task_id'', PyInt n), (''status'', PyStr ''completed'')]))
      else Inr (None, None))"
  using assms by (simp add: identify_mcp_tool_and_params_def Let_def)

lemma keyword_input_nonempty:
  assumes "any_in ws (lower user_input)" and "\<forall>w\<in>set ws. w \<noteq> []"
  shows "user_input \<noteq> []"
proof
  assume "user_input = []"
  then have "lower user_input = []" by (simp add: lower_def)
  with assms show False by (auto simp: any_in_def list_ex_iff)
qed

lemma char_lower_not_upper: "\<not> is_upper (char_lower c)"
  by (simp add: char_lower_def is_upper_def Let_def)

lemma char_lower_idem: "char_lower (char_lower c) = char_lower c"
  using char_lower_not_upper[of c] by (simp add: char_lower_def[of "char_lower c"])

lemma lower_no_upper: "c \<in> set (lower s) \<Longrightarrow> \<not> is_upper c"
  by (auto simp: lower_def char_lower_not_upper)

lemma lower_fixed: "\<forall>c\<in>set s. \<not> is_upper c \<Longrightarrow> lower s = s"
  by (induction s) (auto simp: lower_def char_lower_def)

lemma set_strip: "set (strip s) \<subseteq> set s"
proof
  fix c assume "c \<in> set (strip s)"
  then have "c \<in> set (dropWhile is_space (rev (dropWhile is_space s)))"
    by (simp add: strip_def)
  then have "c \<in> set (rev (dropWhile is_space s))" by (rule set_dropWhileD)
  then have "c \<in> set (dropWhile is_space s)" by simp
  then show "c \<in> set s" by (rule set_dropWhileD)
qed

lemma set_removeprefix: "set (removeprefix p s) \<subseteq> set s"
  by (auto simp: removeprefix_def dest: in_set_dropD)

lemma set_clean_title: "set (clean_title s) \<subseteq> set s"
  unfolding clean_title_def
  using set_strip set_removeprefix by (meson subset_trans)

text \<open>
  What stripping and prefix removal mean: \<open>strip\<close> takes whitespace, and nothing else, off
  both ends until a character that is not whitespace; \<open>removeprefix\<close> takes the prefix off
  when the string starts with it and leaves the string alone otherwise.
\<close>

lemma strip_decompose:
  "\<exists>a b. s = a @ strip s @ b \<and> (\<forall>c\<in>set a. is_space c) \<and> (\<forall>c\<in>set b. is_space c)
     \<and> (strip s \<noteq> [] \<longrightarrow> \<not> is_space (hd (strip s)) \<and> \<not> is_space (last (strip s)))"
proof -
  let ?a = "takeWhile is_space s" and ?m = "dropWhile is_space s"
  let ?b = "rev (takeWhile is_space (rev ?m))"
  have m: "?m = strip s @ ?b"
  proof -
    have "rev ?m = takeWhile is_space (rev ?m) @ dropWhile is_space (rev ?m)" by simp
    then have "rev (rev ?m) = rev (takeWhile is_space (rev ?m) @ dropWhile is_space (rev ?m))"
      by simp
    then show ?thesis unfolding strip_def by (simp only: rev_rev_ident rev_append)
  qed
  have "s = ?a @ ?m" by simp
  with m have eq: "s = ?a @ strip s @ ?b" by simp
  have a: "\<forall>c\<in>set ?a. is_space c" by (auto dest: set_takeWhileD)
  have b: "\<forall>c\<in>set ?b. is_space c" by (auto dest: set_takeWhileD)
  have ends: "\<not> is_space (hd (strip s)) \<and> \<not> is_space (last (strip s))" if ne: "strip s \<noteq> []"
  proof -
    have "?m \<noteq> []"
    proof
      assume "?m = []"
      with m have "strip s = []" by (metis append_is_Nil_conv)
      with ne show False by simp
    qed
    then have "\<not> is_space (hd ?m)" using hd_dropWhile[of is_space s] by blast
    moreover have "hd ?m = hd (strip s)" using m ne by (metis hd_append2)
    moreover have "dropWhile is_space (rev ?m) \<noteq> []" using ne by (simp add: strip_def)
    then have "\<not> is_space (hd (dropWhile is_space (rev ?m)))" by (rule hd_dropWhile)
    then have "\<not> is_space (last (strip s))" using ne by (simp add: strip_def last_rev)
    ultimately show ?thesis by simp
  qed
  from eq a b ends show ?thesis by blast
qed

lemma removeprefix_found: "removeprefix p (p @ s) = s"
  by (simp add: removeprefix_def startswith_iff)

lemma removeprefix_absent: "\<not> startswith s p \<Longrightarrow> removeprefix p s = s"
  by (simp add: removeprefix_def)

lemma strip_idem: "strip (strip s) = strip s"
proof -
  have a: "dropWhile is_space (strip s) = strip s"
  proof (cases "strip s = []")
    case True
    then show ?thesis by simp
  next
    case False
    with strip_decompose[of s] have "\<not> is_space (hd (strip s))" by blast
    with False show ?thesis by (cases "strip s") auto
  qed
  have b: "dropWhile is_space (rev (strip s)) = rev (strip s)"
  proof (cases "strip s = []")
    case True
    then show ?thesis by simp
  next
    case False
    with strip_decompose[of s] have "\<not> is_space (last (strip s))" by blast
    with False have "\<not> is_space (hd (rev (strip s)))" by (simp add: hd_rev)
    with False show ?thesis by (cases "rev (strip s)") auto
  qed
  show ?thesis unfolding strip_def[of "strip s"] a b by simp
qed

text \<open>
  The title the classifier computes is the specification's title of the same text
  whenever a leading \<^verbatim>\<open>task\<close> or \<^verbatim>\<open>to\<close> of the stripped text is a whole token, or the
  stripped text starts with neither.
\<close>

lemma leading_token_prefix:
  "\<exists>r. s = leading_token s @ r \<and> (r = [] \<or> is_space (hd r))"
proof -
  have "s = leading_token s @ dropWhile (\<lambda>c. \<not> is_space c) s"
    by (simp add: leading_token_def)
  moreover have "dropWhile (\<lambda>c. \<not> is_space c) s = []
      \<or> is_space (hd (dropWhile (\<lambda>c. \<not> is_space c) s))"
    using hd_dropWhile[of "\<lambda>c. \<not> is_space c" s] by blast
  ultimately show ?thesis by blast
qed

lemma strip_space_led: "r = [] \<or> is_space (hd r) \<Longrightarrow> removeprefix ''to'' r = r"
  by (cases r) (auto simp: removeprefix_def is_space_def)

lemma clean_title_whole_token:
  assumes "leading_token (strip rest) = ''task'' \<or> leading_token (strip rest) = ''to''"
  shows "clean_title rest = spec_clean_title rest"
proof -
  from leading_token_prefix[of "strip rest"] obtain r where
    r: "strip rest = leading_token (strip rest) @ r" and sp: "r = [] \<or> is_space (hd r)" by blast
  from assms show ?thesis
  proof
    assume t: "leading_token (strip rest) = ''task''"
    with r have e: "strip rest = ''task'' @ r" by simp
    have "removeprefix ''task'' (strip rest) = r" unfolding e by (rule removeprefix_found)
    then have "clean_title rest = strip r"
      using strip_space_led[OF sp] by (simp add: clean_title_def)
    moreover have "spec_clean_title rest = strip r"
      using t e by (simp add: spec_clean_title_def Let_def)
    ultimately show ?thesis by simp
  next
    assume t: "leading_token (strip rest) = ''to''"
    with r have e: "strip rest = ''to'' @ r" by simp
    then have "\<not> startswith (strip rest) ''task''" by simp
    then have "removeprefix ''task'' (strip rest) = strip rest" by (rule removeprefix_absent)
    moreover have "removeprefix ''to'' (strip rest) = r" unfolding e by (rule removeprefix_found)
    ultimately have "clean_title rest = strip r" by (simp add: clean_title_def)
    moreover have "spec_clean_title rest = strip r"
      using t e by (simp add: spec_clean_title_def Let_def)
    ultimately show ?thesis by simp
  qed
qed

lemma clean_title_no_prefix:
  assumes "\<not> startswith (strip rest) ''task''" and "\<not> startswith (strip rest) ''to''"
  shows "clean_title rest = spec_clean_title rest"
proof -
  from leading_token_prefix[of "strip rest"] obtain r where
    r: "strip rest = leading_token (strip rest) @ r" by blast
  have "leading_token (strip rest) \<noteq> ''task''"
  proof
    assume "leading_token (strip rest) = ''task''"
    with r have "strip rest = ''task'' @ r" by simp
    then have "startswith (strip rest) ''task''" unfolding startswith_iff by blast
    with assms show False by simp
  qed
  moreover have "leading_token (strip rest) \<noteq> ''to''"
  proof
    assume "leading_token (strip rest) = ''to''"
    with r have "strip rest = ''to'' @ r" by simp
    then have "startswith (strip rest) ''to''" unfolding startswith_iff by blast
    with assms show False by simp
  qed
  ultimately have "spec_clean_title rest = strip rest"
    by (simp add: spec_clean_title_def Let_def)
  moreover have "clean_title rest = strip rest"
    using assms by (simp add: clean_title_def removeprefix_absent strip_idem)
  ultimately show ?thesis by simp
qed

lemma clean_title_agrees:
  assumes "leading_token (strip rest) = ''task'' \<or> leading_token (strip rest) = ''to''
     \<or> (\<not> startswith (strip rest) ''task'' \<and> \<not> startswith (strip rest) ''to'')"
  shows "clean_title rest = spec_clean_title rest"
  using assms clean_title_whole_token clean_title_no_prefix by blast

section \<open>Digit runs and their value\<close>

lemma digit_runs_skip:
  "\<forall>c\<in>set pre. \<not> is_digit c \<Longrightarrow> digit_runs [] (pre @ s) = digit_runs [] s"
  by (induction pre) auto

lemma digit_runs_run:
  "\<forall>c\<in>set ds. is_digit c \<Longrightarrow> post = [] \<or> \<not> is_digit (hd post) \<Longrightarrow> cur @ ds \<noteq> [] \<Longrightarrow>
   digit_runs cur (ds @ post) = (cur @ ds) # digit_runs [] post"
proof (induction ds arbitrary: cur)
  case Nil
  then show ?case by (cases post) auto
next
  case (Cons d ds)
  then have "digit_runs (cur @ [d]) (ds @ post) = ((cur @ [d]) @ ds) # digit_runs [] post"
    by (intro Cons.IH) auto
  with Cons.prems show ?case by simp
qed

lemma findall_digits_first:
  assumes "\<forall>c\<in>set pre. \<not> is_digit c" and "ds \<noteq> []" and "\<forall>c\<in>set ds. is_digit c"
    and "post = [] \<or> \<not> is_digit (hd post)"
  shows "findall_digits (pre @ ds @ post) = ds # findall_digits post"
  using assms digit_runs_run[of ds post "[]"]
  by (simp add: findall_digits_def digit_runs_skip)

lemma findall_digits_none: "\<forall>c\<in>set s. \<not> is_digit c \<Longrightarrow> findall_digits s = []"
  using digit_runs_skip[of s "[]"] by (simp add: findall_digits_def)

lemma first_run_exists:
  assumes "\<exists>c\<in>set s. is_digit c"
  shows "\<exists>pre ds post. s = pre @ ds @ post \<and> (\<forall>c\<in>set pre. \<not> is_digit c) \<and> ds \<noteq> []
     \<and> (\<forall>c\<in>set ds. is_digit c) \<and> (post = [] \<or> \<not> is_digit (hd post))"
proof -
  let ?nd = "\<lambda>c. \<not> is_digit c"
  let ?pre = "takeWhile ?nd s" and ?rest = "dropWhile ?nd s"
  let ?ds = "takeWhile is_digit ?rest" and ?post = "dropWhile is_digit ?rest"
  have rest: "?rest \<noteq> []" using assms by (simp add: dropWhile_eq_Nil_conv)
  then have "is_digit (hd ?rest)" using hd_dropWhile[of ?nd s] by simp
  then have ds: "?ds \<noteq> []" using rest by (cases ?rest) auto
  have "s = ?pre @ ?ds @ ?post" by simp
  moreover have "\<forall>c\<in>set ?pre. \<not> is_digit c" by (auto dest: set_takeWhileD)
  moreover have "\<forall>c\<in>set ?ds. is_digit c" by (auto dest: set_takeWhileD)
  moreover have "?post = [] \<or> \<not> is_digit (hd ?post)" using hd_dropWhile[of is_digit ?rest] by blast
  ultimately show ?thesis using ds by blast
qed

lemma foldl_digits:
  "foldl (\<lambda>a c. 10 * a + digit_val c) a ds =
     a * 10 ^ length ds + (\<Sum>i<length ds. digit_val (ds ! i) * 10 ^ (length ds - Suc i))"
proof (induction ds rule: rev_induct)
  case Nil
  then show ?case by simp
next
  case (snoc d ds)
  have "(\<Sum>i<length ds. digit_val ((ds @ [d]) ! i) * 10 ^ (length ds - i)) =
        (\<Sum>i<length ds. 10 * (digit_val (ds ! i) * 10 ^ (length ds - Suc i)))"
  proof (rule sum.cong)
    fix i assume "i \<in> {..<length ds}"
    then have i: "i < length ds" by simp
    then have "(10::int) ^ (length ds - i) = 10 * 10 ^ (length ds - Suc i)"
      by (metis Suc_diff_Suc power_Suc)
    with i show "digit_val ((ds @ [d]) ! i) * 10 ^ (length ds - i) =
        10 * (digit_val (ds ! i) * 10 ^ (length ds - Suc i))"
      by (simp add: nth_append)
  qed simp
  then show ?case using snoc by (simp add: sum_distrib_left algebra_simps)
qed

lemma decimal_value_sum:
  "decimal_value ds = (\<Sum>i<length ds. digit_val (ds ! i) * 10 ^ (length ds - Suc i))"
  by (simp add: decimal_value_def foldl_digits)

lemma first_number_none:
  "\<forall>c\<in>set s. \<not> is_digit c \<Longrightarrow> first_number (findall_digits s) = Inr 1"
  by (simp add: findall_digits_none first_number_def)

lemma first_number_run:
  assumes "s = pre @ ds @ post" and "\<forall>c\<in>set pre. \<not> is_digit c" and "ds \<noteq> []"
    and "\<forall>c\<in>set ds. is_digit c" and "post = [] \<or> \<not> is_digit (hd post)"
  shows "first_number (findall_digits s) = py_int ds"
  using assms by (simp add: findall_digits_first first_number_def)

lemma char_of_digits:
  "char_of (48::nat) = CHR ''0''" "char_of (49::nat) = CHR ''1''" "char_of (50::nat) = CHR ''2''"
  "char_of (51::nat) = CHR ''3''" "char_of (52::nat) = CHR ''4''" "char_of (53::nat) = CHR ''5''"
  "char_of (54::nat) = CHR ''6''" "char_of (55::nat) = CHR ''7''" "char_of (56::nat) = CHR ''8''"
  "char_of (57::nat) = CHR ''9''"
  by code_simp+

lemma is_digit_iff: "is_digit c \<longleftrightarrow> c \<in> set ''0123456789''"
proof
  assume "is_digit c"
  then have "48 \<le> (of_char c :: nat) \<and> (of_char c :: nat) \<le> 57"
    by (simp add: is_digit_def Let_def)
  then have "(of_char c :: nat) = 48 \<or> (of_char c :: nat) = 49 \<or> (of_char c :: nat) = 50
      \<or> (of_char c :: nat) = 51 \<or> (of_char c :: nat) = 52 \<or> (of_char c :: nat) = 53
      \<or> (of_char c :: nat) = 54 \<or> (of_char c :: nat) = 55 \<or> (of_char c :: nat) = 56
      \<or> (of_char c :: nat) = 57" by arith
  then have "(of_char c :: nat) \<in> {48, 49, 50, 51, 52, 53, 54, 55, 56, 57}" by blast
  then have "char_of (of_char c :: nat) \<in> char_of ` {48::nat, 49, 50, 51, 52, 53, 54, 55, 56, 57}"
    by (rule imageI)
  then show "c \<in> set ''0123456789''" by (simp add: char_of_digits)
next
  assume "c \<in> set ''0123456789''"
  then show "is_digit c" by (auto simp: is_digit_def)
qed

lemma py_int_value:
  "py_int ds =
     (if length ds \<le> 4300
      then Inr (\<Sum>i<length ds. (int (of_char (ds ! i)) - 48) * 10 ^ (length ds - Suc i))
      else Inl (ValueError (''Exceeds the limit (4300 digits) for integer string conversion: value has ''
             @ digits_of_nat (length ds)
             @ '' digits; use sys.set_int_max_str_digits() to increase the limit'')))"
proof -
  have m: "digits_of_nat max_str_digits = ''4300''" by code_simp
  have "decimal_value ds = (\<Sum>i<length ds. (int (of_char (ds ! i)) - 48) * 10 ^ (length ds - Suc i))"
    by (simp add: decimal_value_sum digit_val_def)
  then show ?thesis unfolding py_int_def m by (simp add: max_str_digits_def)
qed

text \<open>Lowercasing leaves the digits, and so the digit runs, as they are.\<close>

lemma is_digit_lower: "is_digit (char_lower c) = is_digit c"
  by (simp add: char_lower_def is_upper_def is_digit_def Let_def)

lemma digit_lower_fixed: "is_digit c \<Longrightarrow> char_lower c = c"
  by (simp add: char_lower_def is_upper_def is_digit_def Let_def)

lemma digit_runs_lower:
  "\<lbrakk>length a = length b; map char_lower a = map char_lower b\<rbrakk>
   \<Longrightarrow> digit_runs cur a = digit_runs cur b"
proof (induction a b arbitrary: cur rule: list_induct2)
  case Nil
  then show ?case by simp
next
  case (Cons x xs y ys)
  then have xy: "char_lower x = char_lower y" and r: "map char_lower xs = map char_lower ys"
    by simp_all
  have d: "is_digit x = is_digit y" using xy by (metis is_digit_lower)
  have e: "is_digit x \<Longrightarrow> x = y" using xy d by (metis digit_lower_fixed)
  show ?case using Cons.IH[OF r] d e by auto
qed

lemma findall_digits_lower:
  assumes "lower a = lower b"
  shows "findall_digits a = findall_digits b"
proof -
  from assms have "length (lower a) = length (lower b)" by simp
  then have "length a = length b" by (simp add: lower_def)
  with assms show ?thesis
    using digit_runs_lower[of a b "[]"] by (simp add: findall_digits_def lower_def)
qed

lemma first_number_raises:
  "first_number nums = Inl e \<Longrightarrow> \<exists>msg. e = ValueError msg"
  by (auto simp: first_number_def py_int_def split: list.splits if_splits)

lemma first_number_result:
  "(\<exists>n. first_number nums = Inr n) \<or> (\<exists>msg. first_number nums = Inl (ValueError msg))"
  by (cases "first_number nums") (auto dest: first_number_raises)

lemma not_digit_iff: "(\<forall>c\<in>set s. c \<notin> set ''0123456789'') \<longleftrightarrow> (\<forall>c\<in>set s. \<not> is_digit c)"
  unfolding is_digit_iff by simp

lemma all_digit_iff: "(\<forall>c\<in>set s. c \<in> set ''0123456789'') \<longleftrightarrow> (\<forall>c\<in>set s. is_digit c)"
  unfolding is_digit_iff by simp

lemma decimal_sum:
  "(\<Sum>i<length ds. (int (of_char (ds ! i)) - 48) * 10 ^ (length ds - Suc i)) = decimal_value ds"
  by (simp add: decimal_value_sum digit_val_def)

text \<open>A keyword with a character the text does not hold is not in the text.\<close>

lemma str_in_missing_char: "c \<in> set w \<Longrightarrow> c \<notin> set s \<Longrightarrow> \<not> str_in w s"
  unfolding str_in_iff by auto

text \<open>The command \<^verbatim>\<open>delete\<close> followed by a run of 4301 digits.\<close>

lemma long_run_classified:
  "\<not> any_in create_words (lower (''delete '' @ replicate 4301 (CHR ''1'')))
   \<and> \<not> (any_in list_words (lower (''delete '' @ replicate 4301 (CHR ''1'')))
        \<or> str_in ''my tasks'' (lower (''delete '' @ replicate 4301 (CHR ''1''))))
   \<and> any_in delete_words (lower (''delete '' @ replicate 4301 (CHR ''1'')))"
proof -
  let ?s = "''delete '' @ replicate 4301 (CHR ''1'')"
  have "\<forall>c\<in>set ?s. \<not> is_upper c" by (auto simp: is_upper_def)
  then have l: "lower ?s = ?s" by (rule lower_fixed)
  have set: "set ?s = {CHR ''d'', CHR ''e'', CHR ''l'', CHR ''t'', CHR '' '', CHR ''1''}"
    by auto
  have no: "\<not> str_in w ?s" if "c \<in> set w" "c \<notin> set ?s" for w c
    using that by (rule str_in_missing_char)
  have "\<not> str_in ''add'' ?s" by (rule no[of "CHR ''a''"]) (simp_all only: set, simp_all)
  moreover have "\<not> str_in ''create'' ?s" by (rule no[of "CHR ''c''"]) (simp_all only: set, simp_all)
  moreover have "\<not> str_in ''make'' ?s" by (rule no[of "CHR ''m''"]) (simp_all only: set, simp_all)
  moreover have "\<not> str_in ''new'' ?s" by (rule no[of "CHR ''n''"]) (simp_all only: set, simp_all)
  moreover have "\<not> str_in ''list'' ?s" by (rule no[of "CHR ''i''"]) (simp_all only: set, simp_all)
  moreover have "\<not> str_in ''show'' ?s" by (rule no[of "CHR ''s''"]) (simp_all only: set, simp_all)
  moreover have "\<not> str_in ''view'' ?s" by (rule no[of "CHR ''v''"]) (simp_all only: set, simp_all)
  moreover have "\<not> str_in ''display'' ?s" by (rule no[of "CHR ''i''"]) (simp_all only: set, simp_all)
  moreover have "\<not> str_in ''see'' ?s" by (rule no[of "CHR ''s''"]) (simp_all only: set, simp_all)
  moreover have "\<not> str_in ''check'' ?s" by (rule no[of "CHR ''c''"]) (simp_all only: set, simp_all)
  moreover have "\<not> str_in ''my tasks'' ?s" by (rule no[of "CHR ''m''"]) (simp_all only: set, simp_all)
  moreover have "str_in ''delete'' ?s"
  proof -
    have "?s = [] @ ''delete'' @ ('' '' @ replicate 4301 (CHR ''1''))" by simp
    then show ?thesis unfolding str_in_iff by blast
  qed
  ultimately show ?thesis unfolding l
    by (simp add: any_in_def create_words_def list_words_def delete_words_def)
qed

lemma long_run_raises:
  "identify_mcp_tool_and_params (''delete '' @ replicate 4301 (CHR ''1'')) user_id =
     Inl (ValueError ''Exceeds the limit (4300 digits) for integer string conversion: value has 4301 digits; use sys.set_int_max_str_digits() to increase the limit'')"
proof -
  let ?s = "''delete '' @ replicate 4301 (CHR ''1'')"
  have d: "digits_of_nat 4301 = ''4301''" by code_simp
  have a: "?s = ''delete '' @ replicate 4301 (CHR ''1'') @ []" by simp
  have b: "\<forall>c\<in>set ''delete ''. \<not> is_digit c" by (simp add: is_digit_def)
  have c: "replicate 4301 (CHR ''1'') \<noteq> []" by simp
  have e: "\<forall>c\<in>set (replicate 4301 (CHR ''1'')). is_digit c" by (simp add: is_digit_def)
  have f: "([]::string) = [] \<or> \<not> is_digit (hd [])" by simp
  have "first_number (findall_digits ?s) = py_int (replicate 4301 (CHR ''1''))"
    by (rule first_number_run[OF a b c e f])
  also have "\<dots> = Inl (ValueError ''Exceeds the limit (4300 digits) for integer string conversion: value has 4301 digits; use sys.set_int_max_str_digits() to increase the limit'')"
    unfolding py_int_value by (simp add: d)
  finally have n: "first_number (findall_digits ?s) = Inl (ValueError ''Exceeds the limit (4300 digits) for integer string conversion: value has 4301 digits; use sys.set_int_max_str_digits() to increase the limit'')" .
  from long_run_classified have nc: "\<not> any_in create_words (lower ?s)" by blast
  show ?thesis unfolding identify_not_create[OF nc] using long_run_classified n by simp
qed

section \<open>Properties of the classifier\<close>

text \<open>
  Claim C1, as stated: whenever the lowercased input contains a create keyword, the title is
  the text of the input after the first occurrence of the matched keyword, with a leading
  \<^verbatim>\<open>task\<close> or \<^verbatim>\<open>to\<close> token and surrounding whitespace stripped, and the input as the
  fallback. It fails at the input \<^verbatim>\<open>Add Milk\<close>: the specification's title is \<^verbatim>\<open>Milk\<close>, the
  classifier's is \<^verbatim>\<open>milk\<close>, because the classifier cuts the title out of the lowercased
  copy.
\<close>

theorem create_title_raw_counterexample:
  "any_in create_words (lower ''Add Milk'')
   \<and> spec_create_title ''Add Milk'' = Some ''Milk''
   \<and> identify_mcp_tool_and_params ''Add Milk'' ''u1''
       \<noteq> Inr (Some ''create_task'', Some [(''title'', PyStr ''Milk'')])"
  by code_simp

text \<open>
  Claim C1, amended in the casing only: whenever the lowercased input contains one of the
  keywords \<^verbatim>\<open>add\<close>, \<^verbatim>\<open>create\<close>, \<^verbatim>\<open>make\<close>, \<^verbatim>\<open>new\<close>, the classifier yields \<^verbatim>\<open>create_task\<close>
  with a title that is never empty. With \<open>w\<close> the first keyword of that list found in the
  lowercased input and \<open>post\<close> the text of the \<^emph>\<open>lowercased\<close> input after the first
  occurrence of \<open>w\<close>, the title is \<open>post\<close> with a leading \<^verbatim>\<open>task\<close> or \<^verbatim>\<open>to\<close> token and
  surrounding whitespace stripped, as the specification words it, and the raw input when
  nothing remains. This is stated for the texts in which a leading \<^verbatim>\<open>task\<close> or \<^verbatim>\<open>to\<close> is a
  whole token or absent; the other texts are left open here.
\<close>

theorem create_title_from_lowered:
  assumes "any_in create_words (lower user_input)"
  shows "\<exists>w pre post title.
       find (\<lambda>w. str_in w (lower user_input)) create_words = Some w
     \<and> lower user_input = pre @ w @ post
     \<and> (\<forall>i<length pre. \<not> startswith (drop i (lower user_input)) w)
     \<and> identify_mcp_tool_and_params user_input user_id =
         Inr (Some ''create_task'', Some [(''title'', PyStr title)])
     \<and> title \<noteq> []
     \<and> (leading_token (strip post) = ''task'' \<or> leading_token (strip post) = ''to''
          \<or> (\<not> startswith (strip post) ''task'' \<and> \<not> startswith (strip post) ''to'')
        \<longrightarrow> title = (if spec_clean_title post \<noteq> [] then spec_clean_title post
                     else user_input))"
proof -
  from identify_create[OF assms, of user_id] obtain w pre post where
    f: "find (\<lambda>w. str_in w (lower user_input)) create_words = Some w"
    and eq: "lower user_input = pre @ w @ post"
    and fo: "\<forall>i<length pre. \<not> startswith (drop i (lower user_input)) w"
    and r: "identify_mcp_tool_and_params user_input user_id =
         Inr (Some ''create_task'',
           Some [(''title'', PyStr (if clean_title post \<noteq> [] then clean_title post else user_input))])"
    by blast
  let ?t = "if clean_title post \<noteq> [] then clean_title post else user_input"
  have ne: "?t \<noteq> []"
    using keyword_input_nonempty[OF assms create_words_nonempty] by simp
  have ag: "?t = (if spec_clean_title post \<noteq> [] then spec_clean_title post else user_input)"
    if "leading_token (strip post) = ''task'' \<or> leading_token (strip post) = ''to''
          \<or> (\<not> startswith (strip post) ''task'' \<and> \<not> startswith (strip post) ''to'')"
    using clean_title_agrees[OF that] by simp
  from f eq fo r ne ag show ?thesis by blast
qed

text \<open>
  The theorem of C1 at the input \<^verbatim>\<open>Please ADD Task Buy Milk\<close>: the text after \<^verbatim>\<open>add\<close> is
  \<^verbatim>\<open> task buy milk\<close>, its leading token is \<^verbatim>\<open>task\<close>, and the title is \<^verbatim>\<open>buy milk\<close>.
\<close>

theorem create_title_from_lowered_witness:
  "any_in create_words (lower ''Please ADD Task Buy Milk'')
   \<and> identify_mcp_tool_and_params ''Please ADD Task Buy Milk'' ''u1'' =
         Inr (Some ''create_task'', Some [(''title'', PyStr ''buy milk'')])
   \<and> spec_clean_title '' task buy milk'' = ''buy milk''
   \<and> leading_token (strip '' task buy milk'') = ''task''"
proof -
  have h: "any_in create_words (lower ''Please ADD Task Buy Milk'')" by code_simp
  have v: "identify_mcp_tool_and_params ''Please ADD Task Buy Milk'' ''u1'' =
         Inr (Some ''create_task'', Some [(''title'', PyStr ''buy milk'')])" by code_simp
  have s: "spec_clean_title '' task buy milk'' = ''buy milk''" by code_simp
  have t: "leading_token (strip '' task buy milk'') = ''task''" by code_simp
  from create_title_from_lowered[OF h, of "''u1''"] obtain title where
    "identify_mcp_tool_and_params ''Please ADD Task Buy Milk'' ''u1'' =
         Inr (Some ''create_task'', Some [(''title'', PyStr title)])" and "title \<noteq> []"
    by blast
  with h v s t show ?thesis by simp
qed

text \<open>
  Where \<^verbatim>\<open>task\<close> or \<^verbatim>\<open>to\<close> only begins a longer word, the classifier still cuts it off:
  \<^verbatim>\<open>removeprefix\<close> looks for no word boundary. For \<^verbatim>\<open>add today\<close> the leading token of the
  remainder is \<^verbatim>\<open>today\<close>, which the specification's words keep, and the classifier's title
  is \<^verbatim>\<open>day\<close>.
\<close>

lemma create_title_prefix_slip:
  "leading_token (strip '' today'') = ''today''
   \<and> spec_clean_title '' today'' = ''today''
   \<and> identify_mcp_tool_and_params ''add today'' ''u1'' =
        Inr (Some ''create_task'', Some [(''title'', PyStr ''day'')])"
  by code_simp

text \<open>
  Claim C10: the title is cut out of the lowercased copy of the input. When the cleaned
  remainder after the matched create keyword is not empty, the title is that remainder
  and holds no uppercase character, whatever the casing of the input
  (\<^verbatim>\<open>title.lower() == title\<close>); only when the remainder is empty is the title the raw input,
  with its casing.
\<close>

theorem create_title_lowercase:
  assumes "any_in create_words (lower user_input)"
  shows "\<exists>w pre post title.
       find (\<lambda>w. str_in w (lower user_input)) create_words = Some w
     \<and> lower user_input = pre @ w @ post
     \<and> (\<forall>i<length pre. \<not> startswith (drop i (lower user_input)) w)
     \<and> identify_mcp_tool_and_params user_input user_id =
         Inr (Some ''create_task'', Some [(''title'', PyStr title)])
     \<and> (clean_title post \<noteq> [] \<longrightarrow>
          title = clean_title post \<and> (\<forall>c\<in>set title. \<not> is_upper c) \<and> lower title = title)
     \<and> (clean_title post = [] \<longrightarrow> title = user_input)"
proof -
  from identify_create[OF assms, of user_id] obtain w pre post where
    f: "find (\<lambda>w. str_in w (lower user_input)) create_words = Some w"
    and eq: "lower user_input = pre @ w @ post"
    and fo: "\<forall>i<length pre. \<not> startswith (drop i (lower user_input)) w"
    and r: "identify_mcp_tool_and_params user_input user_id =
         Inr (Some ''create_task'',
           Some [(''title'', PyStr (if clean_title post \<noteq> [] then clean_title post else user_input))])"
    by blast
  have "set (clean_title post) \<subseteq> set (lower user_input)"
    using set_clean_title[of post] eq by auto
  then have nu: "\<forall>c\<in>set (clean_title post). \<not> is_upper c"
    using lower_no_upper by blast
  then have "lower (clean_title post) = clean_title post" by (rule lower_fixed)
  with f eq fo r nu show ?thesis by (intro exI[of _ w] exI[of _ pre] exI[of _ post]
    exI[of _ "if clean_title post \<noteq> [] then clean_title post else user_input"]) simp
qed

text \<open>The theorem of C10 at the input \<^verbatim>\<open>Please ADD Task Buy Milk\<close>.\<close>

theorem create_title_lowercase_witness:
  "any_in create_words (lower ''Please ADD Task Buy Milk'')
   \<and> (\<exists>title. identify_mcp_tool_and_params ''Please ADD Task Buy Milk'' ''u1'' =
         Inr (Some ''create_task'', Some [(''title'', PyStr title)])
       \<and> (title = ''Please ADD Task Buy Milk'' \<or> (\<forall>c\<in>set title. \<not> is_upper c)))"
proof -
  have h: "any_in create_words (lower ''Please ADD Task Buy Milk'')" by code_simp
  from create_title_lowercase[OF h, of "''u1''"] h show ?thesis by blast
qed

text \<open>
  Claim C2: the classifier is a chain tested on the lowercased input in the order create,
  list, delete, update, and the first branch whose test holds gives the result: a create
  keyword gives \<^verbatim>\<open>create_task\<close> whatever else the input contains, the list test is only
  reached without a create keyword, the delete test only without a create or list match,
  the update test only without the three before, and with no match the result is
  \<^verbatim>\<open>(None, None)\<close>. The delete and the update branch end in \<^verbatim>\<open>delete_task\<close> and
  \<^verbatim>\<open>update_task\<close> with a task identifier, or in the \<^verbatim>\<open>ValueError\<close> that the conversion of
  the identifier raises. In particular an input containing both \<^verbatim>\<open>add\<close> and \<^verbatim>\<open>list\<close> is
  classified as create. The outcome, up to the parameters, depends on the input only
  through its lowercased text.
\<close>

theorem classifier_first_match:
  "(any_in create_words (lower user_input) \<longrightarrow>
      (\<exists>title. identify_mcp_tool_and_params user_input user_id =
         Inr (Some ''create_task'', Some [(''title'', PyStr title)])))
   \<and> (\<not> any_in create_words (lower user_input)
        \<and> (any_in list_words (lower user_input) \<or> str_in ''my tasks'' (lower user_input)) \<longrightarrow>
      identify_mcp_tool_and_params user_input user_id =
         Inr (Some ''get_tasks'', Some [(''user_id'', PyStr user_id)]))
   \<and> (\<not> any_in create_words (lower user_input)
        \<and> \<not> (any_in list_words (lower user_input) \<or> str_in ''my tasks'' (lower user_input))
        \<and> any_in delete_words (lower user_input) \<longrightarrow>
      (\<exists>n. identify_mcp_tool_and_params user_input user_id =
         Inr (Some ''delete_task'', Some [(''task_id'', PyInt n)]))
      \<or> (\<exists>msg. identify_mcp_tool_and_params user_input user_id = Inl (ValueError msg)))
   \<and> (\<not> any_in create_words (lower user_input)
        \<and> \<not> (any_in list_words (lower user_input) \<or> str_in ''my tasks'' (lower user_input))
        \<and> \<not> any_in delete_words (lower user_input)
        \<and> any_in update_words (lower user_input) \<longrightarrow>
      (\<exists>n. identify_mcp_tool_and_params user_input user_id =
         Inr (Some ''update_task'',
           Some [(''task_id'', PyInt n), (''status'', PyStr ''completed'')]))
      \<or> (\<exists>msg. identify_mcp_tool_and_params user_input user_id = Inl (ValueError msg)))
   \<and> (\<not> any_in create_words (lower user_input)
        \<and> \<not> (any_in list_words (lower user_input) \<or> str_in ''my tasks'' (lower user_input))
        \<and> \<not> any_in delete_words (lower user_input)
        \<and> \<not> any_in update_words (lower user_input) \<longrightarrow>
      identify_mcp_tool_and_params user_input user_id = Inr (None, None))
   \<and> (str_in ''add'' (lower user_input) \<and> str_in ''list'' (lower user_input) \<longrightarrow>
      (\<exists>title. identify_mcp_tool_and_params user_input user_id =
         Inr (Some ''create_task'', Some [(''title'', PyStr title)])))
   \<and> (\<forall>other. lower other = lower user_input \<longrightarrow>
        map_sum id fst (identify_mcp_tool_and_params other user_id) =
        map_sum id fst (identify_mcp_tool_and_params user_input user_id))"
proof (intro conjI impI allI)
  assume "any_in create_words (lower user_input)"
  then show "\<exists>title. identify_mcp_tool_and_params user_input user_id =
         Inr (Some ''create_task'', Some [(''title'', PyStr title)])"
    by (rule identify_create_name)
next
  assume "str_in ''add'' (lower user_input) \<and> str_in ''list'' (lower user_input)"
  then have "any_in create_words (lower user_input)"
    by (simp add: any_in_def create_words_def)
  then show "\<exists>title. identify_mcp_tool_and_params user_input user_id =
         Inr (Some ''create_task'', Some [(''title'', PyStr title)])"
    by (rule identify_create_name)
next
  fix other assume eq: "lower other = lower user_input"
  show "map_sum id fst (identify_mcp_tool_and_params other user_id) =
        map_sum id fst (identify_mcp_tool_and_params user_input user_id)"
  proof (cases "any_in create_words (lower user_input)")
    case True
    from identify_create_name[OF True, of user_id]
      identify_create_name[OF True[folded eq], of user_id]
    show ?thesis by auto
  next
    case False
    from identify_not_create[OF False, of user_id]
      identify_not_create[OF False[folded eq], of user_id]
    show ?thesis unfolding findall_digits_lower[OF eq] eq by simp
  qed
next
  assume "\<not> any_in create_words (lower user_input)
        \<and> \<not> (any_in list_words (lower user_input) \<or> str_in ''my tasks'' (lower user_input))
        \<and> any_in delete_words (lower user_input)"
  then show "(\<exists>n. identify_mcp_tool_and_params user_input user_id =
         Inr (Some ''delete_task'', Some [(''task_id'', PyInt n)]))
      \<or> (\<exists>msg. identify_mcp_tool_and_params user_input user_id = Inl (ValueError msg))"
    using first_number_result[of "findall_digits user_input"]
    by (auto simp: identify_not_create)
next
  assume "\<not> any_in create_words (lower user_input)
        \<and> \<not> (any_in list_words (lower user_input) \<or> str_in ''my tasks'' (lower user_input))
        \<and> \<not> any_in delete_words (lower user_input)
        \<and> any_in update_words (lower user_input)"
  then show "(\<exists>n. identify_mcp_tool_and_params user_input user_id =
         Inr (Some ''update_task'',
           Some [(''task_id'', PyInt n), (''status'', PyStr ''completed'')]))
      \<or> (\<exists>msg. identify_mcp_tool_and_params user_input user_id = Inl (ValueError msg))"
    using first_number_result[of "findall_digits user_input"]
    by (auto simp: identify_not_create)
qed (simp_all add: identify_not_create)

text \<open>The theorem of C2 at the input \<^verbatim>\<open>Add this to my LIST\<close>.\<close>

theorem classifier_first_match_witness:
  "str_in ''add'' (lower ''Add this to my LIST'') \<and> str_in ''list'' (lower ''Add this to my LIST'')
   \<and> (\<exists>title. identify_mcp_tool_and_params ''Add this to my LIST'' ''u1'' =
         Inr (Some ''create_task'', Some [(''title'', PyStr title)]))"
proof -
  have h: "str_in ''add'' (lower ''Add this to my LIST'') \<and> str_in ''list'' (lower ''Add this to my LIST'')"
    by code_simp
  from classifier_first_match[of "''Add this to my LIST''" "''u1''"] h show ?thesis by blast
qed

text \<open>
  Claim C3, as stated: a delete input always yields \<^verbatim>\<open>delete_task\<close> with the first run of
  digits as identifier. It fails for \<^verbatim>\<open>delete\<close> followed by a run of 4301 digits: the
  conversion of line 117 raises \<^verbatim>\<open>ValueError\<close> and the classifier yields no operation.
\<close>

theorem delete_long_run_counterexample:
  "\<not> any_in create_words (lower (''delete '' @ replicate 4301 (CHR ''1'')))
   \<and> \<not> (any_in list_words (lower (''delete '' @ replicate 4301 (CHR ''1'')))
        \<or> str_in ''my tasks'' (lower (''delete '' @ replicate 4301 (CHR ''1''))))
   \<and> any_in delete_words (lower (''delete '' @ replicate 4301 (CHR ''1'')))
   \<and> identify_mcp_tool_and_params (''delete '' @ replicate 4301 (CHR ''1'')) ''u1'' =
     Inl (ValueError ''Exceeds the limit (4300 digits) for integer string conversion: value has 4301 digits; use sys.set_int_max_str_digits() to increase the limit'')"
  using long_run_classified long_run_raises[of "''u1''"] by blast

text \<open>
  Claim C3, amended: for an input with no create and no list match, a delete keyword gives
  \<^verbatim>\<open>delete_task\<close> and otherwise an update keyword gives \<^verbatim>\<open>update_task\<close> with status
  \<^verbatim>\<open>completed\<close>, both with the same task identifier: 1 when the raw input holds no digit,
  and otherwise the decimal value of the first maximal run of digits \<open>ds\<close> of the raw
  input (no digit before it, no digit right after it), provided the run has at most 4300
  digits. A longer run makes the conversion raise \<^verbatim>\<open>ValueError\<close>, and the classifier
  raises it in place of a result.
\<close>

theorem delete_update_identifier:
  assumes "\<not> any_in create_words (lower user_input)"
    and "\<not> (any_in list_words (lower user_input) \<or> str_in ''my tasks'' (lower user_input))"
  shows "\<exists>r.
       (any_in delete_words (lower user_input) \<longrightarrow>
          identify_mcp_tool_and_params user_input user_id =
            (case r of
               Inl e \<Rightarrow> Inl e
             | Inr n \<Rightarrow> Inr (Some ''delete_task'', Some [(''task_id'', PyInt n)])))
     \<and> (\<not> any_in delete_words (lower user_input) \<and> any_in update_words (lower user_input) \<longrightarrow>
          identify_mcp_tool_and_params user_input user_id =
            (case r of
               Inl e \<Rightarrow> Inl e
             | Inr n \<Rightarrow> Inr (Some ''update_task'',
                 Some [(''task_id'', PyInt n), (''status'', PyStr ''completed'')])))
     \<and> ((\<forall>c\<in>set user_input. c \<notin> set ''0123456789'') \<longrightarrow> r = Inr 1)
     \<and> (\<forall>pre ds post.
            user_input = pre @ ds @ post
          \<and> (\<forall>c\<in>set pre. c \<notin> set ''0123456789'') \<and> ds \<noteq> []
          \<and> (\<forall>c\<in>set ds. c \<in> set ''0123456789'')
          \<and> (post = [] \<or> hd post \<notin> set ''0123456789'')
          \<longrightarrow> r = (if length ds \<le> 4300
                   then Inr (\<Sum>i<length ds.
                          (int (of_char (ds ! i)) - 48) * 10 ^ (length ds - Suc i))
                   else Inl (ValueError
                     (''Exceeds the limit (4300 digits) for integer string conversion: value has ''
                      @ digits_of_nat (length ds)
                      @ '' digits; use sys.set_int_max_str_digits() to increase the limit''))))
     \<and> ((\<forall>c\<in>set user_input. c \<notin> set ''0123456789'')
          \<or> (\<exists>pre ds post.
                user_input = pre @ ds @ post
              \<and> (\<forall>c\<in>set pre. c \<notin> set ''0123456789'') \<and> ds \<noteq> []
              \<and> (\<forall>c\<in>set ds. c \<in> set ''0123456789'')
              \<and> (post = [] \<or> hd post \<notin> set ''0123456789'')))"
proof -
  let ?r = "first_number (findall_digits user_input)"
  have d: "any_in delete_words (lower user_input) \<longrightarrow>
          identify_mcp_tool_and_params user_input user_id =
            (case ?r of
               Inl e \<Rightarrow> Inl e
             | Inr n \<Rightarrow> Inr (Some ''delete_task'', Some [(''task_id'', PyInt n)]))"
    using assms by (simp add: identify_not_create)
  have u: "\<not> any_in delete_words (lower user_input) \<and> any_in update_words (lower user_input) \<longrightarrow>
          identify_mcp_tool_and_params user_input user_id =
            (case ?r of
               Inl e \<Rightarrow> Inl e
             | Inr n \<Rightarrow> Inr (Some ''update_task'',
                 Some [(''task_id'', PyInt n), (''status'', PyStr ''completed'')]))"
    using assms by (simp add: identify_not_create)
  have n: "(\<forall>c\<in>set user_input. c \<notin> set ''0123456789'') \<longrightarrow> ?r = Inr 1"
    unfolding not_digit_iff by (simp add: first_number_none)
  have v: "?r = (if length ds \<le> 4300
                   then Inr (\<Sum>i<length ds.
                          (int (of_char (ds ! i)) - 48) * 10 ^ (length ds - Suc i))
                   else Inl (ValueError
                     (''Exceeds the limit (4300 digits) for integer string conversion: value has ''
                      @ digits_of_nat (length ds)
                      @ '' digits; use sys.set_int_max_str_digits() to increase the limit'')))"
    if "user_input = pre @ ds @ post
          \<and> (\<forall>c\<in>set pre. c \<notin> set ''0123456789'') \<and> ds \<noteq> []
          \<and> (\<forall>c\<in>set ds. c \<in> set ''0123456789'')
          \<and> (post = [] \<or> hd post \<notin> set ''0123456789'')" for pre ds post
  proof -
    from that have "user_input = pre @ ds @ post" "\<forall>c\<in>set pre. \<not> is_digit c" "ds \<noteq> []"
      "\<forall>c\<in>set ds. is_digit c" "post = [] \<or> \<not> is_digit (hd post)"
      unfolding is_digit_iff by blast+
    then have "?r = py_int ds" by (rule first_number_run)
    then show ?thesis unfolding py_int_value .
  qed
  have e: "(\<forall>c\<in>set user_input. c \<notin> set ''0123456789'')
          \<or> (\<exists>pre ds post.
                user_input = pre @ ds @ post
              \<and> (\<forall>c\<in>set pre. c \<notin> set ''0123456789'') \<and> ds \<noteq> []
              \<and> (\<forall>c\<in>set ds. c \<in> set ''0123456789'')
              \<and> (post = [] \<or> hd post \<notin> set ''0123456789''))"
  proof (cases "\<exists>c\<in>set user_input. is_digit c")
    case False
    then show ?thesis unfolding is_digit_iff by blast
  next
    case True
    from first_run_exists[OF this] show ?thesis unfolding is_digit_iff by blast
  qed
  have v': "\<forall>pre ds post.
            user_input = pre @ ds @ post
          \<and> (\<forall>c\<in>set pre. c \<notin> set ''0123456789'') \<and> ds \<noteq> []
          \<and> (\<forall>c\<in>set ds. c \<in> set ''0123456789'')
          \<and> (post = [] \<or> hd post \<notin> set ''0123456789'')
          \<longrightarrow> ?r = (if length ds \<le> 4300
                   then Inr (\<Sum>i<length ds.
                          (int (of_char (ds ! i)) - 48) * 10 ^ (length ds - Suc i))
                   else Inl (ValueError
                     (''Exceeds the limit (4300 digits) for integer string conversion: value has ''
                      @ digits_of_nat (length ds)
                      @ '' digits; use sys.set_int_max_str_digits() to increase the limit'')))"
    by (intro allI impI) (rule v)
  show ?thesis
    by (rule exI[of _ ?r]) (rule conjI[OF d conjI[OF u conjI[OF n conjI[OF v' e]]]])
qed

text \<open>
  The theorem of C3 at the inputs \<^verbatim>\<open>Remove task 42 or 7\<close>, which gives \<^verbatim>\<open>delete_task\<close>
  with identifier 42, and \<^verbatim>\<open>mark done 7\<close>, which gives \<^verbatim>\<open>update_task\<close> with identifier 7.
\<close>

theorem delete_update_identifier_witness:
  "\<not> any_in create_words (lower ''Remove task 42 or 7'')
   \<and> \<not> (any_in list_words (lower ''Remove task 42 or 7'')
         \<or> str_in ''my tasks'' (lower ''Remove task 42 or 7''))
   \<and> any_in delete_words (lower ''Remove task 42 or 7'')
   \<and> identify_mcp_tool_and_params ''Remove task 42 or 7'' ''u1'' =
        Inr (Some ''delete_task'', Some [(''task_id'', PyInt 42)])
   \<and> \<not> any_in create_words (lower ''mark done 7'')
   \<and> \<not> (any_in list_words (lower ''mark done 7'') \<or> str_in ''my tasks'' (lower ''mark done 7''))
   \<and> \<not> any_in delete_words (lower ''mark done 7'')
   \<and> any_in update_words (lower ''mark done 7'')
   \<and> identify_mcp_tool_and_params ''mark done 7'' ''u1'' =
        Inr (Some ''update_task'',
          Some [(''task_id'', PyInt 7), (''status'', PyStr ''completed'')])"
proof -
  have h1: "\<not> any_in create_words (lower ''Remove task 42 or 7'')" by code_simp
  have h2: "\<not> (any_in list_words (lower ''Remove task 42 or 7'')
         \<or> str_in ''my tasks'' (lower ''Remove task 42 or 7''))" by code_simp
  have h3: "any_in delete_words (lower ''Remove task 42 or 7'')" by code_simp
  have run42: "''Remove task 42 or 7'' = ''Remove task '' @ ''42'' @ '' or 7''
          \<and> (\<forall>c\<in>set ''Remove task ''. c \<notin> set ''0123456789'') \<and> ''42'' \<noteq> []
          \<and> (\<forall>c\<in>set ''42''. c \<in> set ''0123456789'')
          \<and> ('' or 7'' = [] \<or> hd '' or 7'' \<notin> set ''0123456789'')" by simp
  have d: "identify_mcp_tool_and_params ''Remove task 42 or 7'' ''u1'' =
        Inr (Some ''delete_task'', Some [(''task_id'', PyInt 42)])"
    using delete_update_identifier[OF h1 h2, of "''u1''"]
  proof (elim exE conjE)
    fix r
    assume a: "any_in delete_words (lower ''Remove task 42 or 7'') \<longrightarrow>
          identify_mcp_tool_and_params ''Remove task 42 or 7'' ''u1'' =
            (case r of
               Inl e \<Rightarrow> Inl e
             | Inr n \<Rightarrow> Inr (Some ''delete_task'', Some [(''task_id'', PyInt n)]))"
      and v: "\<forall>pre ds post.
            ''Remove task 42 or 7'' = pre @ ds @ post
          \<and> (\<forall>c\<in>set pre. c \<notin> set ''0123456789'') \<and> ds \<noteq> []
          \<and> (\<forall>c\<in>set ds. c \<in> set ''0123456789'')
          \<and> (post = [] \<or> hd post \<notin> set ''0123456789'')
          \<longrightarrow> r = (if length ds \<le> 4300
                   then Inr (\<Sum>i<length ds.
                          (int (of_char (ds ! i)) - 48) * 10 ^ (length ds - Suc i))
                   else Inl (ValueError
                     (''Exceeds the limit (4300 digits) for integer string conversion: value has ''
                      @ digits_of_nat (length ds)
                      @ '' digits; use sys.set_int_max_str_digits() to increase the limit'')))"
    from v[rule_format, OF run42]
    have "r = (if length ''42'' \<le> 4300 then Inr (decimal_value ''42'')
                   else Inl (ValueError
                     (''Exceeds the limit (4300 digits) for integer string conversion: value has ''
                      @ digits_of_nat (length ''42'')
                      @ '' digits; use sys.set_int_max_str_digits() to increase the limit'')))"
      unfolding decimal_sum .
    then have "r = Inr 42" by (simp add: decimal_value_def digit_val_def)
    with a h3 show ?thesis by simp
  qed
  have k1: "\<not> any_in create_words (lower ''mark done 7'')" by code_simp
  have k2: "\<not> (any_in list_words (lower ''mark done 7'')
         \<or> str_in ''my tasks'' (lower ''mark done 7''))" by code_simp
  have k3: "\<not> any_in delete_words (lower ''mark done 7'')" by code_simp
  have k4: "any_in update_words (lower ''mark done 7'')" by code_simp
  have run7: "''mark done 7'' = ''mark done '' @ ''7'' @ []
          \<and> (\<forall>c\<in>set ''mark done ''. c \<notin> set ''0123456789'') \<and> ''7'' \<noteq> []
          \<and> (\<forall>c\<in>set ''7''. c \<in> set ''0123456789'')
          \<and> (([]::string) = [] \<or> hd ([]::string) \<notin> set ''0123456789'')" by simp
  have u: "identify_mcp_tool_and_params ''mark done 7'' ''u1'' =
        Inr (Some ''update_task'',
          Some [(''task_id'', PyInt 7), (''status'', PyStr ''completed'')])"
    using delete_update_identifier[OF k1 k2, of "''u1''"]
  proof (elim exE conjE)
    fix q
    assume a: "\<not> any_in delete_words (lower ''mark done 7'')
          \<and> any_in update_words (lower ''mark done 7'') \<longrightarrow>
          identify_mcp_tool_and_params ''mark done 7'' ''u1'' =
            (case q of
               Inl e \<Rightarrow> Inl e
             | Inr n \<Rightarrow> Inr (Some ''update_task'',
                 Some [(''task_id'', PyInt n), (''status'', PyStr ''completed'')]))"
      and v: "\<forall>pre ds post.
            ''mark done 7'' = pre @ ds @ post
          \<and> (\<forall>c\<in>set pre. c \<notin> set ''0123456789'') \<and> ds \<noteq> []
          \<and> (\<forall>c\<in>set ds. c \<in> set ''0123456789'')
          \<and> (post = [] \<or> hd post \<notin> set ''0123456789'')
          \<longrightarrow> q = (if length ds \<le> 4300
                   then Inr (\<Sum>i<length ds.
                          (int (of_char (ds ! i)) - 48) * 10 ^ (length ds - Suc i))
                   else Inl (ValueError
                     (''Exceeds the limit (4300 digits) for integer string conversion: value has ''
                      @ digits_of_nat (length ds)
                      @ '' digits; use sys.set_int_max_str_digits() to increase the limit'')))"
    from v[rule_format, OF run7]
    have "q = (if length ''7'' \<le> 4300 then Inr (decimal_value ''7'')
                   else Inl (ValueError
                     (''Exceeds the limit (4300 digits) for integer string conversion: value has ''
                      @ digits_of_nat (length ''7'')
                      @ '' digits; use sys.set_int_max_str_digits() to increase the limit'')))"
      unfolding decimal_sum .
    then have "q = Inr 7" by (simp add: decimal_value_def digit_val_def)
    with a k3 k4 show ?thesis by simp
  qed
  show ?thesis
    by (rule conjI[OF h1 conjI[OF h2 conjI[OF h3 conjI[OF d conjI[OF k1 conjI[OF k2
          conjI[OF k3 conjI[OF k4 u]]]]]]]])
qed

section \<open>Properties of the dispatcher\<close>

lemma execute_create:
  "execute_mcp_tool wd ''create_task'' params =
     send wd \<lparr>http_method = ''POST'', url = BACKEND_BASE_URL wd @ ''/api/tasks/'',
               json_body = Some [(''title'', dict_get params ''title'' (PyStr [])),
                                 (''description'', dict_get params ''description'' (PyStr []))],
               headers = request_headers params\<rparr>
       (\<lambda>r. Inr (if status_code r = 200 \<or> status_code r = 201
                  then ''Task added successfully.'' else resp_text r))"
  by (simp add: execute_mcp_tool_def Let_def)












lemma execute_transport_error:
  "http_send wd = raising e \<Longrightarrow> snd (execute_mcp_tool wd ''create_task'' params) = Inl e"
  by (simp add: execute_create send_def raising_def)






section \<open>Properties of the orchestrator\<close>

text \<open>
  The classifier returns no operation, or an operation name with a non-empty mapping, or
  it raises the \<^verbatim>\<open>ValueError\<close> of the conversion of the task identifier.
\<close>

lemma identify_cases:
  "(\<exists>msg. identify_mcp_tool_and_params user_input user_id = Inl (ValueError msg))
   \<or> identify_mcp_tool_and_params user_input user_id = Inr (None, None)
   \<or> (\<exists>tool_name params. identify_mcp_tool_and_params user_input user_id =
          Inr (Some tool_name, Some params) \<and> tool_name \<noteq> [] \<and> params \<noteq> [])"
proof (cases "any_in create_words (lower user_input)")
  case True
  from identify_create_name[OF this, of user_id] show ?thesis by auto
next
  case False
  from first_number_result[of "findall_digits user_input"] show ?thesis
  proof (elim disjE exE)
    fix n assume "first_number (findall_digits user_input) = Inr n"
    then show ?thesis unfolding identify_not_create[OF False] by simp
  next
    fix msg assume "first_number (findall_digits user_input) = Inl (ValueError msg)"
    then show ?thesis unfolding identify_not_create[OF False] by simp
  qed
qed

lemma process_try_tool:
  assumes "identify_mcp_tool_and_params user_input user_id = Inr (Some tool_name, Some params)"
  shows "process_try wd user_input conversation_history user_id conversation_id auth_token =
     tool_path wd user_input tool_name params auth_token"
proof -
  from identify_cases[of user_input user_id] assms
  have "tool_name \<noteq> [] \<and> params \<noteq> []" by auto
  with assms show ?thesis by (simp add: process_try_def)
qed

lemma process_try_chat:
  assumes "identify_mcp_tool_and_params user_input user_id = Inr (None, None)"
  shows "process_try wd user_input conversation_history user_id conversation_id auth_token =
     chat_path wd user_input"
  using assms by (simp add: process_try_def)

lemma tool_path_dispatch_raises:
  assumes "snd (execute_mcp_tool wd tool_name
       (dict_set params ''session_token'' (PyStr (token_or_empty auth_token)))) = Inl e"
  shows "snd (tool_path wd user_input tool_name params auth_token) = Inl e"
  using assms by (cases "execute_mcp_tool wd tool_name
       (dict_set params ''session_token'' (PyStr (token_or_empty auth_token)))")
    (simp add: tool_path_def Let_def)

lemma tool_path_returned:
  assumes "snd (execute_mcp_tool wd tool_name
       (dict_set params ''session_token'' (PyStr (token_or_empty auth_token)))) = Inr tool_result"
  shows "tool_path wd user_input tool_name params auth_token =
     (ToolExec tool_name (dict_set params ''session_token'' (PyStr (token_or_empty auth_token)))
        # fst (execute_mcp_tool wd tool_name
              (dict_set params ''session_token'' (PyStr (token_or_empty auth_token))))
        @ [Chat (tool_prompt user_input tool_result)],
      (case chat_completion wd (tool_prompt user_input tool_result) of
         Inl e \<Rightarrow> Inl e
       | Inr content \<Rightarrow>
           Inr (content, [\<lparr>tc_name = tool_name,
                  tc_arguments = dict_set params ''session_token''
                    (PyStr (token_or_empty auth_token))\<rparr>])))"
  using assms by (cases "execute_mcp_tool wd tool_name
       (dict_set params ''session_token'' (PyStr (token_or_empty auth_token)))")
    (simp add: tool_path_def Let_def)

lemma process_caught:
  assumes "snd (process_try wd user_input conversation_history user_id conversation_id auth_token)
     = Inl e"
  shows "snd (process wd user_input conversation_history user_id conversation_id auth_token)
     = (apology @ exn_str e, [])"
  using assms
  by (cases "process_try wd user_input conversation_history user_id conversation_id auth_token")
    (simp add: process_def)

lemma process_returned:
  assumes "snd (process_try wd user_input conversation_history user_id conversation_id auth_token)
     = Inr r"
  shows "snd (process wd user_input conversation_history user_id conversation_id auth_token) = r"
  using assms
  by (cases "process_try wd user_input conversation_history user_id conversation_id auth_token")
    (simp add: process_def)

lemma str_in_append: "str_in w (pre @ w)"
proof -
  have "pre @ w = pre @ w @ []" by simp
  then show ?thesis unfolding str_in_iff by blast
qed

lemma apology_reply:
  "startswith (apology @ exn_str e) ''I'm sorry, I encountered an error:''
   \<and> str_in (exn_str e) (apology @ exn_str e)
   \<and> apology @ exn_str e = ''I'm sorry, I encountered an error: '' @ exn_str e"
proof -
  have "apology @ exn_str e = ''I'm sorry, I encountered an error:'' @ ('' '' @ exn_str e)"
    by (simp add: apology_def)
  then have "startswith (apology @ exn_str e) ''I'm sorry, I encountered an error:''"
    unfolding startswith_iff by blast
  then show ?thesis using str_in_append[of "exn_str e" apology] by (simp add: apology_def)
qed

lemma process_try_results:
  "(\<exists>e. snd (process_try wd user_input conversation_history user_id conversation_id auth_token)
       = Inl e)
   \<or> (\<exists>content calls.
        snd (process_try wd user_input conversation_history user_id conversation_id auth_token)
          = Inr (content, calls) \<and> length calls \<le> 1)"
proof -
  from identify_cases[of user_input user_id] show ?thesis
  proof (elim disjE exE conjE)
    fix msg
    assume "identify_mcp_tool_and_params user_input user_id = Inl (ValueError msg)"
    then show ?thesis by (simp add: process_try_def)
  next
    assume "identify_mcp_tool_and_params user_input user_id = Inr (None, None)"
    then show ?thesis
      by (cases "chat_completion wd (chat_prompt user_input)")
        (simp_all add: process_try_chat chat_path_def Let_def)
  next
    fix tool_name params
    assume i: "identify_mcp_tool_and_params user_input user_id = Inr (Some tool_name, Some params)"
    let ?ps = "dict_set params ''session_token'' (PyStr (token_or_empty auth_token))"
    show ?thesis
    proof (cases "snd (execute_mcp_tool wd tool_name ?ps)")
      case (Inl e)
      then show ?thesis using i by (simp add: process_try_tool tool_path_dispatch_raises)
    next
      case (Inr tool_result)
      then show ?thesis using i
        by (cases "chat_completion wd (tool_prompt user_input tool_result)")
          (simp_all add: process_try_tool tool_path_returned)
    qed
  qed
qed

text \<open>
  Claim C6: whenever an exception \<open>e\<close> is raised inside the flow, by the classifier, by
  the dispatcher, or by the language-model call of the tool path or of the chat path,
  \<^verbatim>\<open>process\<close> returns an empty list of tool calls and the reply
  \<^verbatim>\<open>I'm sorry, I encountered an error: \<close> followed by \<^verbatim>\<open>str(e)\<close>: the reply begins with
  \<^verbatim>\<open>I'm sorry, I encountered an error:\<close> and contains \<^verbatim>\<open>str(e)\<close>.
\<close>

theorem process_catches:
  assumes "identify_mcp_tool_and_params user_input user_id = Inl e
     \<or> (\<exists>tool_name params.
           identify_mcp_tool_and_params user_input user_id = Inr (Some tool_name, Some params)
         \<and> snd (execute_mcp_tool wd tool_name
                  (dict_set params ''session_token'' (PyStr (token_or_empty auth_token)))) = Inl e)
     \<or> (\<exists>tool_name params tool_result.
           identify_mcp_tool_and_params user_input user_id = Inr (Some tool_name, Some params)
         \<and> snd (execute_mcp_tool wd tool_name
                  (dict_set params ''session_token'' (PyStr (token_or_empty auth_token))))
             = Inr tool_result
         \<and> chat_completion wd (tool_prompt user_input tool_result) = Inl e)
     \<or> (identify_mcp_tool_and_params user_input user_id = Inr (None, None)
         \<and> chat_completion wd (chat_prompt user_input) = Inl e)"
  shows "\<exists>reply.
       snd (process wd user_input conversation_history user_id conversation_id auth_token)
         = (reply, [])
     \<and> reply = ''I'm sorry, I encountered an error: '' @ exn_str e
     \<and> startswith reply ''I'm sorry, I encountered an error:''
     \<and> str_in (exn_str e) reply"
proof -
  have "snd (process_try wd user_input conversation_history user_id conversation_id auth_token)
     = Inl e"
    using assms
  proof (elim disjE exE conjE)
    assume "identify_mcp_tool_and_params user_input user_id = Inl e"
    then show ?thesis by (simp add: process_try_def)
  next
    fix tool_name params
    assume "identify_mcp_tool_and_params user_input user_id = Inr (Some tool_name, Some params)"
      and "snd (execute_mcp_tool wd tool_name
                  (dict_set params ''session_token'' (PyStr (token_or_empty auth_token)))) = Inl e"
    then show ?thesis by (simp add: process_try_tool tool_path_dispatch_raises)
  next
    fix tool_name params tool_result
    assume "identify_mcp_tool_and_params user_input user_id = Inr (Some tool_name, Some params)"
      and "snd (execute_mcp_tool wd tool_name
                  (dict_set params ''session_token'' (PyStr (token_or_empty auth_token))))
             = Inr tool_result"
      and "chat_completion wd (tool_prompt user_input tool_result) = Inl e"
    then show ?thesis by (simp add: process_try_tool tool_path_returned)
  next
    assume "identify_mcp_tool_and_params user_input user_id = Inr (None, None)"
      and "chat_completion wd (chat_prompt user_input) = Inl e"
    then show ?thesis by (simp add: process_try_chat chat_path_def Let_def)
  qed
  then have "snd (process wd user_input conversation_history user_id conversation_id auth_token)
     = (apology @ exn_str e, [])" by (rule process_caught)
  with apology_reply[of e] show ?thesis by simp
qed

text \<open>
  The theorem of C6 for each source of an exception: the classifier raising on a run of
  4301 digits, the dispatcher raising on a refused connection, and the language-model
  call raising on the chat path.
\<close>

theorem process_catches_witness:
  "identify_mcp_tool_and_params (''delete '' @ replicate 4301 (CHR ''1'')) ''u1'' =
     Inl (ValueError ''Exceeds the limit (4300 digits) for integer string conversion: value has 4301 digits; use sys.set_int_max_str_digits() to increase the limit'')
   \<and> snd (process \<lparr>BACKEND_BASE_URL = ''http://localhost:8000'',
        http_send = answering \<lparr>status_code = 200, resp_text = ''{}'',
                                resp_json = Inr (JObj [])\<rparr>,
        chat_completion = replying ''ok''\<rparr>
        (''delete '' @ replicate 4301 (CHR ''1'')) [] ''u1'' None None)
     = (''I'm sorry, I encountered an error: Exceeds the limit (4300 digits) for integer string conversion: value has 4301 digits; use sys.set_int_max_str_digits() to increase the limit'', [])
   \<and> identify_mcp_tool_and_params ''Add Milk'' ''u1''
     = Inr (Some ''create_task'', Some [(''title'', PyStr ''milk'')])
   \<and> snd (execute_mcp_tool \<lparr>BACKEND_BASE_URL = ''http://localhost:8000'',
        http_send = raising (TransportError ''connection refused''),
        chat_completion = replying ''ok''\<rparr> ''create_task''
        (dict_set [(''title'', PyStr ''milk'')] ''session_token''
           (PyStr (token_or_empty (Some ''tok'')))))
     = Inl (TransportError ''connection refused'')
   \<and> snd (process \<lparr>BACKEND_BASE_URL = ''http://localhost:8000'',
        http_send = raising (TransportError ''connection refused''),
        chat_completion = replying ''ok''\<rparr> ''Add Milk'' [] ''u1'' None (Some ''tok''))
     = (''I'm sorry, I encountered an error: connection refused'', [])
   \<and> chat_completion \<lparr>BACKEND_BASE_URL = ''http://localhost:8000'',
        http_send = raising (TransportError ''connection refused''),
        chat_completion = raising (APIError ''rate limited'')\<rparr> (chat_prompt ''hello there'')
     = Inl (APIError ''rate limited'')
   \<and> identify_mcp_tool_and_params ''hello there'' ''u1'' = Inr (None, None)
   \<and> snd (process \<lparr>BACKEND_BASE_URL = ''http://localhost:8000'',
        http_send = raising (TransportError ''connection refused''),
        chat_completion = raising (APIError ''rate limited'')\<rparr>
        ''hello there'' [] ''u1'' None None)
     = (''I'm sorry, I encountered an error: rate limited'', [])"
proof -
  let ?long = "''delete '' @ replicate 4301 (CHR ''1'')"
  let ?msg = "''Exceeds the limit (4300 digits) for integer string conversion: value has 4301 digits; use sys.set_int_max_str_digits() to increase the limit''"
  let ?w1 = "\<lparr>BACKEND_BASE_URL = ''http://localhost:8000'',
        http_send = answering \<lparr>status_code = 200, resp_text = ''{}'',
                                resp_json = Inr (JObj [])\<rparr>,
        chat_completion = replying ''ok''\<rparr>"
  let ?w2 = "\<lparr>BACKEND_BASE_URL = ''http://localhost:8000'',
        http_send = raising (TransportError ''connection refused''),
        chat_completion = replying ''ok''\<rparr>"
  let ?w3 = "\<lparr>BACKEND_BASE_URL = ''http://localhost:8000'',
        http_send = raising (TransportError ''connection refused''),
        chat_completion = raising (APIError ''rate limited'')\<rparr>"
  have a1: "identify_mcp_tool_and_params ?long ''u1'' = Inl (ValueError ?msg)"
    by (rule long_run_raises)
  from process_catches[of ?long "''u1''" "ValueError ?msg" ?w1 None "[]" None, OF disjI1, OF a1]
  have a2: "snd (process ?w1 ?long [] ''u1'' None None)
     = (''I'm sorry, I encountered an error: '' @ ?msg, [])" by auto
  have b1: "identify_mcp_tool_and_params ''Add Milk'' ''u1''
     = Inr (Some ''create_task'', Some [(''title'', PyStr ''milk'')])" by code_simp
  have b2: "snd (execute_mcp_tool ?w2 ''create_task''
        (dict_set [(''title'', PyStr ''milk'')] ''session_token''
           (PyStr (token_or_empty (Some ''tok''))))) = Inl (TransportError ''connection refused'')"
    by (rule execute_transport_error) simp
  have "\<exists>tool_name params.
           identify_mcp_tool_and_params ''Add Milk'' ''u1'' = Inr (Some tool_name, Some params)
         \<and> snd (execute_mcp_tool ?w2 tool_name
                  (dict_set params ''session_token'' (PyStr (token_or_empty (Some ''tok'')))))
             = Inl (TransportError ''connection refused'')"
    using b1 b2 by blast
  from process_catches[of "''Add Milk''" "''u1''" "TransportError ''connection refused''" ?w2
      "Some ''tok''" "[]" None, OF disjI2, OF disjI1, OF this]
  have b3: "snd (process ?w2 ''Add Milk'' [] ''u1'' None (Some ''tok''))
     = (''I'm sorry, I encountered an error: '' @ ''connection refused'', [])" by auto
  have c1: "chat_completion ?w3 (chat_prompt ''hello there'') = Inl (APIError ''rate limited'')"
    by (simp add: raising_def)
  have c2: "identify_mcp_tool_and_params ''hello there'' ''u1'' = Inr (None, None)"
    by code_simp
  from process_catches[of "''hello there''" "''u1''" "APIError ''rate limited''" ?w3
      None "[]" None, OF disjI2, OF disjI2, OF disjI2, OF conjI[OF c2 c1]]
  have c3: "snd (process ?w3 ''hello there'' [] ''u1'' None None)
     = (''I'm sorry, I encountered an error: '' @ ''rate limited'', [])" by auto
  from a1 a2 b1 b2 b3 c1 c2 c3 show ?thesis by simp
qed

text \<open>
  Claim C7: for an input whose lowercased text contains no keyword of the classifier and
  not the phrase \<^verbatim>\<open>my tasks\<close>, the classification is \<^verbatim>\<open>(None, None)\<close>; the only event of the
  invocation is the language-model call with the chat prompt, so the dispatcher is not
  invoked and no request is sent; the list of tool calls is empty; and the reply is the
  content the model returns for the chat prompt.
\<close>

theorem no_keyword_chat_path:
  assumes "\<not> any_in create_words (lower user_input)"
    and "\<not> any_in list_words (lower user_input)"
    and "\<not> str_in ''my tasks'' (lower user_input)"
    and "\<not> any_in delete_words (lower user_input)"
    and "\<not> any_in update_words (lower user_input)"
  shows "identify_mcp_tool_and_params user_input user_id = Inr (None, None)
     \<and> fst (process wd user_input conversation_history user_id conversation_id auth_token)
         = [Chat (chat_prompt user_input)]
     \<and> snd (snd (process wd user_input conversation_history user_id conversation_id auth_token))
         = []
     \<and> (\<forall>content. chat_completion wd (chat_prompt user_input) = Inr content \<longrightarrow>
          process wd user_input conversation_history user_id conversation_id auth_token
            = ([Chat (chat_prompt user_input)], content, []))"
proof -
  have i: "identify_mcp_tool_and_params user_input user_id = Inr (None, None)"
    using assms by (simp add: identify_not_create)
  have p: "process wd user_input conversation_history user_id conversation_id auth_token =
     ([Chat (chat_prompt user_input)],
      (case chat_completion wd (chat_prompt user_input) of
         Inl e \<Rightarrow> (apology @ exn_str e, [])
       | Inr content \<Rightarrow> (content, [])))"
    by (simp add: process_def process_try_chat[OF i] chat_path_def Let_def split: sum.splits)
  show ?thesis using i unfolding p by (simp split: sum.splits)
qed

text \<open>
  The theorem of C7 at the input \<^verbatim>\<open>hello there\<close>.
\<close>

theorem no_keyword_chat_path_witness:
  "\<not> any_in create_words (lower ''hello there'')
   \<and> \<not> any_in list_words (lower ''hello there'')
   \<and> \<not> str_in ''my tasks'' (lower ''hello there'')
   \<and> \<not> any_in delete_words (lower ''hello there'')
   \<and> \<not> any_in update_words (lower ''hello there'')
   \<and> identify_mcp_tool_and_params ''hello there'' ''u1'' = Inr (None, None)
   \<and> process \<lparr>BACKEND_BASE_URL = ''http://localhost:8000'',
        http_send = raising (TransportError ''connection refused''),
        chat_completion = replying ''Hi!''\<rparr> ''hello there'' [] ''u1'' None None
       = ([Chat (chat_prompt ''hello there'')], ''Hi!'', [])"
proof -
  let ?wd = "\<lparr>BACKEND_BASE_URL = ''http://localhost:8000'',
        http_send = raising (TransportError ''connection refused''),
        chat_completion = replying ''Hi!''\<rparr>"
  have h1: "\<not> any_in create_words (lower ''hello there'')" by code_simp
  have h2: "\<not> any_in list_words (lower ''hello there'')" by code_simp
  have h3: "\<not> str_in ''my tasks'' (lower ''hello there'')" by code_simp
  have h4: "\<not> any_in delete_words (lower ''hello there'')" by code_simp
  have h5: "\<not> any_in update_words (lower ''hello there'')" by code_simp
  have c: "chat_completion ?wd (chat_prompt ''hello there'') = Inr ''Hi!''"
    by (simp add: replying_def)
  from no_keyword_chat_path[OF h1 h2 h3 h4 h5, of "''u1''" ?wd "[]" None None] c
  have "identify_mcp_tool_and_params ''hello there'' ''u1'' = Inr (None, None)
     \<and> process ?wd ''hello there'' [] ''u1'' None None
       = ([Chat (chat_prompt ''hello there'')], ''Hi!'', [])" by blast
  with h1 h2 h3 h4 h5 show ?thesis by blast
qed

text \<open>
  Claim C9: \<^verbatim>\<open>process\<close> returns at most one tool call. When the classifier yields an
  operation and the tool path completes (the dispatcher returns a result and the model
  a reply), the list is the single record of that operation and its parameters with the
  session token; when the classifier yields nothing, or an exception is caught, the list
  is empty.
\<close>

theorem at_most_one_tool_call:
  "length (snd (snd (process wd user_input conversation_history user_id conversation_id
      auth_token))) \<le> 1
   \<and> (\<forall>tool_name params tool_result content.
         identify_mcp_tool_and_params user_input user_id = Inr (Some tool_name, Some params)
       \<and> snd (execute_mcp_tool wd tool_name
                (dict_set params ''session_token'' (PyStr (token_or_empty auth_token))))
           = Inr tool_result
       \<and> chat_completion wd (tool_prompt user_input tool_result) = Inr content
       \<longrightarrow> snd (process wd user_input conversation_history user_id conversation_id auth_token)
           = (content, [\<lparr>tc_name = tool_name,
                tc_arguments = dict_set params ''session_token''
                  (PyStr (token_or_empty auth_token))\<rparr>]))
   \<and> (identify_mcp_tool_and_params user_input user_id = Inr (None, None)
       \<longrightarrow> snd (snd (process wd user_input conversation_history user_id conversation_id
             auth_token)) = [])
   \<and> (\<forall>e. snd (process_try wd user_input conversation_history user_id conversation_id
               auth_token) = Inl e
       \<longrightarrow> snd (snd (process wd user_input conversation_history user_id conversation_id
             auth_token)) = [])"
proof (intro conjI allI impI)
  from process_try_results[of wd user_input conversation_history user_id conversation_id auth_token]
  show "length (snd (snd (process wd user_input conversation_history user_id conversation_id
      auth_token))) \<le> 1"
  proof (elim disjE exE conjE)
    fix e
    assume "snd (process_try wd user_input conversation_history user_id conversation_id
      auth_token) = Inl e"
    from process_caught[OF this] show ?thesis by simp
  next
    fix content calls
    assume "snd (process_try wd user_input conversation_history user_id conversation_id
      auth_token) = Inr (content, calls)" and l: "length calls \<le> 1"
    from process_returned[OF this(1)] l show ?thesis by simp
  qed
next
  fix tool_name params tool_result content
  assume "identify_mcp_tool_and_params user_input user_id = Inr (Some tool_name, Some params)
       \<and> snd (execute_mcp_tool wd tool_name
                (dict_set params ''session_token'' (PyStr (token_or_empty auth_token))))
           = Inr tool_result
       \<and> chat_completion wd (tool_prompt user_input tool_result) = Inr content"
  then have "snd (process_try wd user_input conversation_history user_id conversation_id
      auth_token) = Inr (content, [\<lparr>tc_name = tool_name,
                tc_arguments = dict_set params ''session_token''
                  (PyStr (token_or_empty auth_token))\<rparr>])"
    by (simp add: process_try_tool tool_path_returned)
  then show "snd (process wd user_input conversation_history user_id conversation_id auth_token)
           = (content, [\<lparr>tc_name = tool_name,
                tc_arguments = dict_set params ''session_token''
                  (PyStr (token_or_empty auth_token))\<rparr>])"
    by (rule process_returned)
next
  assume i: "identify_mcp_tool_and_params user_input user_id = Inr (None, None)"
  show "snd (snd (process wd user_input conversation_history user_id conversation_id
             auth_token)) = []"
    by (simp add: process_def process_try_chat[OF i] chat_path_def Let_def split: sum.splits)
next
  fix e
  assume "snd (process_try wd user_input conversation_history user_id conversation_id
               auth_token) = Inl e"
  from process_caught[OF this]
  show "snd (snd (process wd user_input conversation_history user_id conversation_id
             auth_token)) = []" by simp
qed

text \<open>
  The theorem of C9 at the input \<^verbatim>\<open>Add Milk\<close> with a backend answering 201.
\<close>

theorem at_most_one_tool_call_witness:
  "identify_mcp_tool_and_params ''Add Milk'' ''u1''
     = Inr (Some ''create_task'', Some [(''title'', PyStr ''milk'')])
   \<and> snd (execute_mcp_tool \<lparr>BACKEND_BASE_URL = ''http://localhost:8000'',
        http_send = answering \<lparr>status_code = 201, resp_text = ''{}'',
                                resp_json = Inr (JObj [])\<rparr>,
        chat_completion = replying ''Done.''\<rparr> ''create_task''
        (dict_set [(''title'', PyStr ''milk'')] ''session_token''
           (PyStr (token_or_empty (Some ''tok'')))))
     = Inr ''Task added successfully.''
   \<and> snd (process \<lparr>BACKEND_BASE_URL = ''http://localhost:8000'',
        http_send = answering \<lparr>status_code = 201, resp_text = ''{}'',
                                resp_json = Inr (JObj [])\<rparr>,
        chat_completion = replying ''Done.''\<rparr> ''Add Milk'' [] ''u1'' None (Some ''tok''))
     = (''Done.'', [\<lparr>tc_name = ''create_task'',
          tc_arguments = [(''title'', PyStr ''milk''), (''session_token'', PyStr ''tok'')]\<rparr>])"
proof -
  let ?wd = "\<lparr>BACKEND_BASE_URL = ''http://localhost:8000'',
        http_send = answering \<lparr>status_code = 201, resp_text = ''{}'',
                                resp_json = Inr (JObj [])\<rparr>,
        chat_completion = replying ''Done.''\<rparr>"
  have i: "identify_mcp_tool_and_params ''Add Milk'' ''u1''
     = Inr (Some ''create_task'', Some [(''title'', PyStr ''milk'')])" by code_simp
  have x: "snd (execute_mcp_tool ?wd ''create_task''
        (dict_set [(''title'', PyStr ''milk'')] ''session_token''
           (PyStr (token_or_empty (Some ''tok''))))) = Inr ''Task added successfully.''"
    by (simp add: execute_create send_def answering_def)
  have c: "chat_completion ?wd (tool_prompt ''Add Milk'' ''Task added successfully.'')
     = Inr ''Done.''" by (simp add: replying_def)
  from at_most_one_tool_call[of ?wd "''Add Milk''" "[]" "''u1''" None "Some ''tok''"] i x c
  have "snd (process ?wd ''Add Milk'' [] ''u1'' None (Some ''tok''))
     = (''Done.'', [\<lparr>tc_name = ''create_task'',
          tc_arguments = dict_set [(''title'', PyStr ''milk'')] ''session_token''
                  (PyStr (token_or_empty (Some ''tok'')))\<rparr>])" by blast
  then have "snd (process ?wd ''Add Milk'' [] ''u1'' None (Some ''tok''))
     = (''Done.'', [\<lparr>tc_name = ''create_task'',
          tc_arguments = [(''title'', PyStr ''milk''), (''session_token'', PyStr ''tok'')]\<rparr>])"
    by (simp add: token_or_empty_def)
  with i x show ?thesis by blast
qed

end
